theory Spec2Isabelle
  imports Main "HOL-Library.AList"
begin

section \<open>The in-memory store of \<^verbatim>\<open>src/models/redis.js\<close>\<close>

text \<open>
  \<^verbatim>\<open>MemoryRedisClient\<close> keeps five JavaScript \<^verbatim>\<open>Map\<close>s: \<^verbatim>\<open>store\<close> (plain string
  values), \<^verbatim>\<open>ttls\<close> (absolute expiry in epoch milliseconds), \<^verbatim>\<open>hashes\<close>, \<^verbatim>\<open>lists\<close>
  and \<^verbatim>\<open>zsets\<close> (its flag \<^verbatim>\<open>isConnected\<close> is read by none of the methods modelled
  here and is left out). The outer maps are only read and written by key, so they are
  partial functions. An inner \<^verbatim>\<open>Map<field, value>\<close> or \<^verbatim>\<open>Map<member, score>\<close> is iterated and
  counted, so it is an association list in insertion order; \<^verbatim>\<open>Map.set\<close> is
  \<^const>\<open>AList.update\<close> (an existing key keeps its place, a new one goes last).

  Numbers are integers: times are epoch milliseconds as \<^verbatim>\<open>Date.now()\<close> returns them,
  durations are whole seconds or milliseconds. Every method takes the value of
  \<^verbatim>\<open>Date.now()\<close> as the argument \<open>now\<close>; one call reads the clock several times
  within the same millisecond.
\<close>

record MemoryRedisClient =
  store :: "string \<rightharpoonup> string"
  ttls :: "string \<rightharpoonup> int"
  hashes :: "string \<rightharpoonup> (string \<times> string) list"
  lists :: "string \<rightharpoonup> string list"
  zsets :: "string \<rightharpoonup> (string \<times> int) list"

definition new_client :: MemoryRedisClient where
  "new_client = \<lparr>store = Map.empty, ttls = Map.empty, hashes = Map.empty,
                  lists = Map.empty, zsets = Map.empty\<rparr>"

subsection \<open>Keys and expiry\<close>

definition isExpired :: "string \<Rightarrow> int \<Rightarrow> MemoryRedisClient \<Rightarrow> bool" where
  "isExpired key now s = (case ttls s key of None \<Rightarrow> False | Some t \<Rightarrow> t \<le> now)"

definition setExpiry :: "string \<Rightarrow> int \<Rightarrow> int \<Rightarrow> MemoryRedisClient \<Rightarrow> MemoryRedisClient" where
  "setExpiry key seconds now s =
     (if seconds > 0 then s\<lparr>ttls := (ttls s)(key \<mapsto> now + seconds * 1000)\<rparr> else s)"

text \<open>\<^verbatim>\<open>get\<close> answers \<^verbatim>\<open>this.store.get(key) || null\<close>: a missing key and the empty string
  both read as \<^verbatim>\<open>null\<close>. An expired key is purged from \<^verbatim>\<open>store\<close> and \<^verbatim>\<open>ttls\<close> first.\<close>

definition get :: "string \<Rightarrow> int \<Rightarrow> MemoryRedisClient \<Rightarrow> string option \<times> MemoryRedisClient" where
  "get key now s =
     (if isExpired key now s
      then (None, s\<lparr>store := (store s)(key := None), ttls := (ttls s)(key := None)\<rparr>)
      else (case store s key of
              None \<Rightarrow> (None, s)
            | Some v \<Rightarrow> (if v = [] then None else Some v, s)))"

text \<open>
  \<^verbatim>\<open>set(key, value, ...args)\<close>. The rest arguments are modelled as the options they
  spell, \<^verbatim>\<open>'EX', n\<close>, \<^verbatim>\<open>'PX', n\<close> and \<^verbatim>\<open>'NX'\<close>, which is what the callers in this file
  pass; the number after a keyword takes one turn of the source's loop on its own and
  matches no keyword there. \<^verbatim>\<open>args[i + 1]\<close> is tested for truthiness, so a zero is
  skipped. The value is written to \<^verbatim>\<open>store\<close> before the loop runs.
\<close>

datatype set_arg = Arg_EX int | Arg_PX int | Arg_NX

fun set_args :: "string \<Rightarrow> string \<Rightarrow> set_arg list \<Rightarrow> int \<Rightarrow> MemoryRedisClient
                   \<Rightarrow> string option \<times> MemoryRedisClient" where
  "set_args key val [] now s = (Some ''OK'', s)"
| "set_args key val (Arg_EX n # args) now s =
     set_args key val args now (if n \<noteq> 0 then setExpiry key n now s else s)"
| "set_args key val (Arg_PX n # args) now s =
     set_args key val args now (if n \<noteq> 0 then s\<lparr>ttls := (ttls s)(key \<mapsto> now + n)\<rparr> else s)"
| "set_args key val (Arg_NX # args) now s =
     (if store s key \<noteq> None \<and> \<not> isExpired key now s then (None, s)
      else (Some ''OK'', s\<lparr>store := (store s)(key \<mapsto> val)\<rparr>))"

definition set_op :: "string \<Rightarrow> string \<Rightarrow> set_arg list \<Rightarrow> int \<Rightarrow> MemoryRedisClient
                   \<Rightarrow> string option \<times> MemoryRedisClient" where
  "set_op key val args now s = set_args key val args now (s\<lparr>store := (store s)(key \<mapsto> val)\<rparr>)"

text \<open>\<^verbatim>\<open>del(...keys)\<close> counts a key only when \<^verbatim>\<open>this.store.delete(key)\<close> answers true, and
  drops it from the other four maps whatever that answer was.\<close>

definition del1 :: "string \<Rightarrow> MemoryRedisClient \<Rightarrow> MemoryRedisClient" where
  "del1 key s = s\<lparr>store := (store s)(key := None), hashes := (hashes s)(key := None),
                  lists := (lists s)(key := None), zsets := (zsets s)(key := None),
                  ttls := (ttls s)(key := None)\<rparr>"

fun del_loop :: "string list \<Rightarrow> nat \<Rightarrow> MemoryRedisClient \<Rightarrow> nat \<times> MemoryRedisClient" where
  "del_loop [] deleted s = (deleted, s)"
| "del_loop (key # keys) deleted s =
     del_loop keys (if store s key \<noteq> None then deleted + 1 else deleted) (del1 key s)"

definition del :: "string list \<Rightarrow> MemoryRedisClient \<Rightarrow> nat \<times> MemoryRedisClient" where
  "del keys s = del_loop keys 0 s"

definition key_exists :: "string \<Rightarrow> MemoryRedisClient \<Rightarrow> bool" where
  "key_exists key s \<longleftrightarrow>
     store s key \<noteq> None \<or> hashes s key \<noteq> None \<or> lists s key \<noteq> None \<or> zsets s key \<noteq> None"

definition expire :: "string \<Rightarrow> int \<Rightarrow> int \<Rightarrow> MemoryRedisClient \<Rightarrow> int \<times> MemoryRedisClient" where
  "expire key seconds now s =
     (if \<not> key_exists key s then (0, s) else (1, setExpiry key seconds now s))"

text \<open>\<^verbatim>\<open>ttl\<close> answers \<open>-2\<close> (absent), \<open>-1\<close> (no expiry) or the remaining seconds,
  \<^verbatim>\<open>Math.ceil((t - now) / 1000)\<close>, and \<open>-2\<close> again when that is not positive.\<close>

definition ttl :: "string \<Rightarrow> int \<Rightarrow> MemoryRedisClient \<Rightarrow> int" where
  "ttl key now s =
     (case ttls s key of
        None \<Rightarrow> (if \<not> key_exists key s then - 2 else - 1)
      | Some t \<Rightarrow> (let remaining = - ((now - t) div 1000)
                  in if remaining > 0 then remaining else - 2))"

subsection \<open>Sorted sets\<close>

text \<open>\<^verbatim>\<open>zadd(key, score1, member1, ...)\<close> creates the set when it is missing and
  stores each pair with \<^verbatim>\<open>zset.set(member, score)\<close>; it answers 1.\<close>

definition zadd :: "string \<Rightarrow> (int \<times> string) list \<Rightarrow> MemoryRedisClient \<Rightarrow> int \<times> MemoryRedisClient" where
  "zadd key args s =
     (let zset = (case zsets s key of None \<Rightarrow> [] | Some z \<Rightarrow> z)
      in (1, s\<lparr>zsets := (zsets s)(key \<mapsto>
                 fold (\<lambda>(score, member) z. AList.update member score z) args zset)\<rparr>))"

fun zrem_loop :: "string list \<Rightarrow> nat \<Rightarrow> (string \<times> int) list \<Rightarrow> nat \<times> (string \<times> int) list" where
  "zrem_loop [] removed z = (removed, z)"
| "zrem_loop (member # members) removed z =
     zrem_loop members (if map_of z member \<noteq> None then removed + 1 else removed)
       (AList.delete member z)"

definition zrem :: "string \<Rightarrow> string list \<Rightarrow> MemoryRedisClient \<Rightarrow> nat \<times> MemoryRedisClient" where
  "zrem key members s =
     (case zsets s key of
        None \<Rightarrow> (0, s)
      | Some z \<Rightarrow> (case zrem_loop members 0 z of
                    (removed, z') \<Rightarrow> (removed, s\<lparr>zsets := (zsets s)(key \<mapsto> z')\<rparr>)))"

text \<open>\<^verbatim>\<open>zcard\<close> drops the whole set of a key whose TTL has run out (the \<^verbatim>\<open>ttls\<close> entry
  stays) and answers 0 for it.\<close>

definition zcard :: "string \<Rightarrow> int \<Rightarrow> MemoryRedisClient \<Rightarrow> nat \<times> MemoryRedisClient" where
  "zcard key now s =
     (if isExpired key now s then (0, s\<lparr>zsets := (zsets s)(key := None)\<rparr>)
      else (case zsets s key of None \<Rightarrow> (0, s) | Some z \<Rightarrow> (length z, s)))"

definition zscore :: "string \<Rightarrow> string \<Rightarrow> MemoryRedisClient \<Rightarrow> int option" where
  "zscore key member s = (case zsets s key of None \<Rightarrow> None | Some z \<Rightarrow> map_of z member)"

text \<open>
  The bounds of \<^verbatim>\<open>zremrangebyscore\<close> are a number or one of the strings \<^verbatim>\<open>'-inf'\<close>,
  \<^verbatim>\<open>'+inf'\<close>. Only \<^verbatim>\<open>min === '-inf'\<close> and \<^verbatim>\<open>max === '+inf'\<close> are recognised; the other
  string in either place goes through \<^verbatim>\<open>parseFloat\<close> and is \<^verbatim>\<open>NaN\<close>, which compares false
  with every score. The loop deletes each member in range while iterating the map, which
  a JavaScript \<^verbatim>\<open>Map\<close> allows: what remains is the members out of range, in their order.
\<close>

datatype score_bound = MinusInf | PlusInf | Score int

fun ge_min :: "int \<Rightarrow> score_bound \<Rightarrow> bool" where
  "ge_min score MinusInf = True"
| "ge_min score PlusInf = False"
| "ge_min score (Score m) = (score \<ge> m)"

fun le_max :: "int \<Rightarrow> score_bound \<Rightarrow> bool" where
  "le_max score PlusInf = True"
| "le_max score MinusInf = False"
| "le_max score (Score m) = (score \<le> m)"

definition zremrangebyscore :: "string \<Rightarrow> score_bound \<Rightarrow> score_bound \<Rightarrow> MemoryRedisClient
                                \<Rightarrow> nat \<times> MemoryRedisClient" where
  "zremrangebyscore key minb maxb s =
     (case zsets s key of
        None \<Rightarrow> (0, s)
      | Some z \<Rightarrow>
          (let kept = filter (\<lambda>(member, score). \<not> (ge_min score minb \<and> le_max score maxb)) z
           in (length z - length kept, s\<lparr>zsets := (zsets s)(key \<mapsto> kept)\<rparr>)))"

subsection \<open>Hashes\<close>

text \<open>
  \<^verbatim>\<open>parseInt\<close> on a string: leading white space, an optional sign, an optional \<^verbatim>\<open>0x\<close>
  prefix, then the longest run of digits; no digit at all is \<^verbatim>\<open>NaN\<close>, here \<open>None\<close>.
  \<^verbatim>\<open>String(n)\<close> prints an integer in decimal. Strings are ASCII.
\<close>

definition is_space :: "char \<Rightarrow> bool" where
  "is_space c \<longleftrightarrow> c \<in> set [CHR 0x09, CHR 0x0A, CHR 0x0B, CHR 0x0C, CHR 0x0D, CHR 0x20]"

definition digit_val :: "char \<Rightarrow> nat option" where
  "digit_val c =
     (let n = (of_char c :: nat)
      in if 48 \<le> n \<and> n \<le> 57 then Some (n - 48)
         else if 97 \<le> n \<and> n \<le> 102 then Some (n - 87)
         else if 65 \<le> n \<and> n \<le> 70 then Some (n - 55)
         else None)"

fun digits_prefix :: "nat \<Rightarrow> string \<Rightarrow> nat list" where
  "digits_prefix r [] = []"
| "digits_prefix r (c # cs) =
     (case digit_val c of
        None \<Rightarrow> []
      | Some d \<Rightarrow> if d < r then d # digits_prefix r cs else [])"

definition js_parseInt :: "string \<Rightarrow> int option" where
  "js_parseInt str =
     (let s1 = dropWhile is_space str;
          (sign, s2) = (case s1 of
                          [] \<Rightarrow> (1, [])
                        | c # cs \<Rightarrow> if c = CHR ''-'' then (- 1, cs)
                                    else if c = CHR ''+'' then (1, cs) else (1, s1));
          (r, s3) = (case s2 of
                       a # b # cs \<Rightarrow> if a = CHR ''0'' \<and> (b = CHR ''x'' \<or> b = CHR ''X'')
                                      then (16, cs) else (10, s2)
                     | _ \<Rightarrow> (10, s2));
          ds = digits_prefix r s3
      in if ds = [] then None
         else Some (sign * int (foldl (\<lambda>acc d. acc * r + d) 0 ds)))"

fun string_of_nat :: "nat \<Rightarrow> string" where
  "string_of_nat n =
     (if n < 10 then [char_of (48 + n)]
      else string_of_nat (n div 10) @ [char_of (48 + n mod 10)])"

definition js_String :: "int \<Rightarrow> string" where
  "js_String i = (if i < 0 then CHR ''-'' # string_of_nat (nat (- i)) else string_of_nat (nat i))"

text \<open>\<^verbatim>\<open>hincrby(key, field, increment)\<close>: \<^verbatim>\<open>parseInt(hash.get(field)) || 0\<close> reads a missing
  or unparsable field as 0.\<close>

definition hincrby :: "string \<Rightarrow> string \<Rightarrow> int \<Rightarrow> MemoryRedisClient \<Rightarrow> int \<times> MemoryRedisClient" where
  "hincrby key field increment s =
     (let hash = (case hashes s key of None \<Rightarrow> [] | Some h \<Rightarrow> h);
          current = (case map_of hash field of
                       None \<Rightarrow> 0
                     | Some v \<Rightarrow> (case js_parseInt v of None \<Rightarrow> 0 | Some n \<Rightarrow> n));
          newValue = current + increment
      in (newValue, s\<lparr>hashes := (hashes s)(key \<mapsto> AList.update field (js_String newValue) hash)\<rparr>))"

declare string_of_nat.simps [simp del]

section \<open>Calls that may throw\<close>

text \<open>
  Every method is \<^verbatim>\<open>async\<close>; a caller \<^verbatim>\<open>await\<close>s it and an exception of the callee
  surfaces at the \<^verbatim>\<open>await\<close>. A call is a function from the state to its outcome, the
  thrown error (\<open>Inl\<close>) or the value (\<open>Inr\<close>), and the state it leaves behind: what was
  written before a throw stays written.

  The operations of the later sections reach the store through methods of \<^verbatim>\<open>this\<close> and
  wrap those calls in \<^verbatim>\<open>try\<close>/\<^verbatim>\<open>catch\<close>. To say what each \<^verbatim>\<open>catch\<close> does, the operations
  take the methods as a table of calls that may throw. \<open>memory\<close> is the table of
  \<^verbatim>\<open>MemoryRedisClient\<close>'s own methods, none of which throws. The logger is not modelled.
\<close>

datatype error = Error string

type_synonym 'a outcome = "(error + 'a) \<times> MemoryRedisClient"
type_synonym 'a call = "MemoryRedisClient \<Rightarrow> 'a outcome"

definition returns :: "'a \<Rightarrow> 'a call" where
  "returns a s = (Inr a, s)"

definition throws :: "error \<Rightarrow> 'a call" where
  "throws e s = (Inl e, s)"

definition await :: "'a call \<Rightarrow> ('a \<Rightarrow> 'b call) \<Rightarrow> 'b call" where
  "await m f s = (case m s of (Inl e, s') \<Rightarrow> (Inl e, s') | (Inr a, s') \<Rightarrow> f a s')"

definition try_catch :: "'a call \<Rightarrow> (error \<Rightarrow> 'a call) \<Rightarrow> 'a call" where
  "try_catch m h s = (case m s of (Inl e, s') \<Rightarrow> h e s' | (Inr a, s') \<Rightarrow> (Inr a, s'))"

definition ok :: "(MemoryRedisClient \<Rightarrow> 'a \<times> MemoryRedisClient) \<Rightarrow> 'a call" where
  "ok f s = (case f s of (a, s') \<Rightarrow> (Inr a, s'))"

record backend =
  call_get :: "string \<Rightarrow> int \<Rightarrow> string option call"
  call_set :: "string \<Rightarrow> string \<Rightarrow> set_arg list \<Rightarrow> int \<Rightarrow> string option call"
  call_del :: "string list \<Rightarrow> nat call"
  call_expire :: "string \<Rightarrow> int \<Rightarrow> int \<Rightarrow> int call"
  call_ttl :: "string \<Rightarrow> int \<Rightarrow> int call"
  call_hincrby :: "string \<Rightarrow> string \<Rightarrow> int \<Rightarrow> int call"
  call_zadd :: "string \<Rightarrow> (int \<times> string) list \<Rightarrow> int call"
  call_zrem :: "string \<Rightarrow> string list \<Rightarrow> nat call"
  call_zcard :: "string \<Rightarrow> int \<Rightarrow> nat call"
  call_zscore :: "string \<Rightarrow> string \<Rightarrow> int option call"
  call_zremrangebyscore :: "string \<Rightarrow> score_bound \<Rightarrow> score_bound \<Rightarrow> nat call"

definition memory :: backend where
  "memory =
     \<lparr>call_get = (\<lambda>key now. ok (get key now)),
      call_set = (\<lambda>key val args now. ok (set_op key val args now)),
      call_del = (\<lambda>keys. ok (del keys)),
      call_expire = (\<lambda>key seconds now. ok (expire key seconds now)),
      call_ttl = (\<lambda>key now. ok (\<lambda>s. (ttl key now s, s))),
      call_hincrby = (\<lambda>key field increment. ok (hincrby key field increment)),
      call_zadd = (\<lambda>key args. ok (zadd key args)),
      call_zrem = (\<lambda>key members. ok (zrem key members)),
      call_zcard = (\<lambda>key now. ok (zcard key now)),
      call_zscore = (\<lambda>key member. ok (\<lambda>s. (zscore key member s, s))),
      call_zremrangebyscore = (\<lambda>key minb maxb. ok (zremrangebyscore key minb maxb))\<rparr>"

section \<open>Configuration\<close>

text \<open>
  \<^verbatim>\<open>config/config.js\<close> is not part of the sources read here; the settings the modelled
  code reads from it are parameters. A setting that may be missing is an option.
  \<^verbatim>\<open>a || b\<close> on numbers takes \<open>b\<close> when \<open>a\<close> is missing or zero.
\<close>

record concurrency_settings =
  leaseSeconds :: int
  renewIntervalSeconds :: int
  cleanupGraceSeconds :: int

record concurrency_overrides =
  leaseSeconds_opt :: "int option"
  renewIntervalSeconds_opt :: "int option"
  cleanupGraceSeconds_opt :: "int option"

record session_settings =
  stickyTtlHours :: "int option"
  renewalThresholdMinutes :: "int option"

record config =
  concurrency :: "concurrency_overrides option"
  session :: "session_settings option"
  metricsWindow :: int

definition js_or :: "int option \<Rightarrow> int \<Rightarrow> int" where
  "js_or a b = (case a of None \<Rightarrow> b | Some n \<Rightarrow> if n = 0 then b else n)"

definition getConcurrencyConfig :: "config \<Rightarrow> concurrency_settings" where
  "getConcurrencyConfig cfg =
     (let over = (case concurrency cfg of
                    None \<Rightarrow> \<lparr>leaseSeconds_opt = None, renewIntervalSeconds_opt = None,
                              cleanupGraceSeconds_opt = None\<rparr>
                  | Some c \<Rightarrow> c)
      in \<lparr>leaseSeconds = (case leaseSeconds_opt over of None \<Rightarrow> 300 | Some n \<Rightarrow> n),
          renewIntervalSeconds = (case renewIntervalSeconds_opt over of None \<Rightarrow> 30 | Some n \<Rightarrow> n),
          cleanupGraceSeconds = (case cleanupGraceSeconds_opt over of None \<Rightarrow> 30 | Some n \<Rightarrow> n)\<rparr>)"

section \<open>Concurrency leases\<close>

text \<open>
  One sorted set \<^verbatim>\<open>concurrency:<apiKeyId>\<close> per subject; a member is a request id, its
  score the lease's expiry. A request id is a string; the tests \<^verbatim>\<open>!requestId\<close> and
  \<^verbatim>\<open>if (requestId)\<close> single out the empty one. \<open>leaseSeconds\<close> defaults to \<^verbatim>\<open>null\<close>.
\<close>

definition concurrency_key :: "string \<Rightarrow> string" where
  "concurrency_key apiKeyId = ''concurrency:'' @ apiKeyId"

definition lease_ttl :: "concurrency_settings \<Rightarrow> int \<Rightarrow> int" where
  "lease_ttl c lease = max ((lease + cleanupGraceSeconds c) * 1000) 60000"

definition set_key_ttl :: "string \<Rightarrow> int \<Rightarrow> int \<Rightarrow> unit call" where
  "set_key_ttl key ttl_ms now s =
     (Inr (), if ttl_ms > 0 then s\<lparr>ttls := (ttls s)(key \<mapsto> now + ttl_ms)\<rparr> else s)"

definition incrConcurrency :: "backend \<Rightarrow> config \<Rightarrow> int \<Rightarrow> string \<Rightarrow> string \<Rightarrow> int option
                               \<Rightarrow> nat call" where
  "incrConcurrency B cfg now apiKeyId requestId lease_arg =
     (if requestId = [] then throws (Error ''Request ID is required for concurrency tracking'')
      else try_catch
        (let c = getConcurrencyConfig cfg;
             lease = js_or lease_arg (leaseSeconds c);
             key = concurrency_key apiKeyId;
             expireAt = now + lease * 1000;
             ttl_ms = lease_ttl c lease
         in await (call_zremrangebyscore B key MinusInf (Score now)) (\<lambda>_.
            await (call_zadd B key [(expireAt, requestId)]) (\<lambda>_.
            await (set_key_ttl key ttl_ms now) (\<lambda>_.
            await (call_zcard B key now) (\<lambda>count.
            returns count)))))
        (\<lambda>error. throws error))"

definition refreshConcurrencyLease :: "backend \<Rightarrow> config \<Rightarrow> int \<Rightarrow> string \<Rightarrow> string \<Rightarrow> int option
                                       \<Rightarrow> nat call" where
  "refreshConcurrencyLease B cfg now apiKeyId requestId lease_arg =
     (if requestId = [] then returns 0
      else try_catch
        (let c = getConcurrencyConfig cfg;
             lease = js_or lease_arg (leaseSeconds c);
             key = concurrency_key apiKeyId;
             expireAt = now + lease * 1000;
             ttl_ms = lease_ttl c lease
         in await (call_zremrangebyscore B key MinusInf (Score now)) (\<lambda>_.
            await (call_zscore B key requestId) (\<lambda>exists.
            if exists \<noteq> None
            then await (call_zadd B key [(expireAt, requestId)]) (\<lambda>_.
                 await (set_key_ttl key ttl_ms now) (\<lambda>_.
                 returns 1))
            else returns 0)))
        (\<lambda>error. returns 0))"

definition decrConcurrency :: "backend \<Rightarrow> int \<Rightarrow> string \<Rightarrow> string \<Rightarrow> nat call" where
  "decrConcurrency B now apiKeyId requestId =
     try_catch
       (let key = concurrency_key apiKeyId
        in await (if requestId \<noteq> [] then call_zrem B key [requestId] else returns 0) (\<lambda>_.
           await (call_zremrangebyscore B key MinusInf (Score now)) (\<lambda>_.
           await (call_zcard B key now) (\<lambda>count.
           if count \<le> 0
           then await (call_del B [key]) (\<lambda>_. returns 0)
           else returns count))))
       (\<lambda>error. throws error)"

definition getConcurrency :: "backend \<Rightarrow> int \<Rightarrow> string \<Rightarrow> nat call" where
  "getConcurrency B now apiKeyId =
     try_catch
       (let key = concurrency_key apiKeyId
        in await (call_zremrangebyscore B key MinusInf (Score now)) (\<lambda>_.
           call_zcard B key now))
       (\<lambda>error. returns 0)"

section \<open>Sticky sessions\<close>

definition session_key :: "string \<Rightarrow> string" where
  "session_key sessionHash = ''sticky_session:'' @ sessionHash"

definition session_setting :: "(session_settings \<Rightarrow> int option) \<Rightarrow> config \<Rightarrow> int option" where
  "session_setting field cfg = (case session cfg of None \<Rightarrow> None | Some ss \<Rightarrow> field ss)"

definition setSessionAccountMapping :: "backend \<Rightarrow> config \<Rightarrow> int \<Rightarrow> string \<Rightarrow> string \<Rightarrow> int option
                                        \<Rightarrow> unit call" where
  "setSessionAccountMapping B cfg now sessionHash accountId ttl_arg =
     (let defaultTTL = (case ttl_arg of
                          Some t \<Rightarrow> t
                        | None \<Rightarrow> js_or (session_setting stickyTtlHours cfg) 1 * 60 * 60);
          key = session_key sessionHash
      in await (call_set B key accountId [Arg_EX defaultTTL] now) (\<lambda>_. returns ()))"

definition getSessionAccountMapping :: "backend \<Rightarrow> int \<Rightarrow> string \<Rightarrow> string option call" where
  "getSessionAccountMapping B now sessionHash = call_get B (session_key sessionHash) now"

definition extendSessionAccountMappingTTL :: "backend \<Rightarrow> config \<Rightarrow> int \<Rightarrow> string \<Rightarrow> bool call" where
  "extendSessionAccountMappingTTL B cfg now sessionHash =
     (let key = session_key sessionHash;
          ttlHours = js_or (session_setting stickyTtlHours cfg) 1;
          thresholdMinutes = js_or (session_setting renewalThresholdMinutes cfg) 0
      in if thresholdMinutes = 0 then returns True
         else
           (let fullTTL = ttlHours * 60 * 60;
                renewalThreshold = thresholdMinutes * 60
            in try_catch
                 (await (call_ttl B key now) (\<lambda>remainingTTL.
                  if remainingTTL = - 2 then returns False
                  else if remainingTTL = - 1 then returns True
                  else if remainingTTL < renewalThreshold
                  then await (call_expire B key fullTTL now) (\<lambda>_. returns True)
                  else returns True))
                 (\<lambda>error. returns False)))"

definition deleteSessionAccountMapping :: "backend \<Rightarrow> string \<Rightarrow> nat call" where
  "deleteSessionAccountMapping B sessionHash = call_del B [session_key sessionHash]"

section \<open>Account locks\<close>

definition setAccountLock :: "backend \<Rightarrow> int \<Rightarrow> string \<Rightarrow> string \<Rightarrow> int \<Rightarrow> bool call" where
  "setAccountLock B now lockKey lockValue ttlMs =
     try_catch
       (await (call_set B lockKey lockValue [Arg_PX ttlMs, Arg_NX] now) (\<lambda>result.
        returns (result = Some ''OK'')))
       (\<lambda>error. returns False)"

definition releaseAccountLock :: "backend \<Rightarrow> int \<Rightarrow> string \<Rightarrow> string \<Rightarrow> bool call" where
  "releaseAccountLock B now lockKey lockValue =
     try_catch
       (await (call_get B lockKey now) (\<lambda>current.
        if current = Some lockValue
        then await (call_del B [lockKey]) (\<lambda>_. returns True)
        else returns False))
       (\<lambda>error. returns False)"

section \<open>Usage and cost counters\<close>

subsection \<open>Pipelines\<close>

text \<open>
  A pipeline records calls and \<^verbatim>\<open>exec\<close> runs them in order, each inside its own
  \<^verbatim>\<open>try\<close>/\<^verbatim>\<open>catch\<close>, collecting one pair \<^verbatim>\<open>[error, result]\<close> per call. The commands modelled
  are the two that \<^verbatim>\<open>incrementTokenUsage\<close> queues.
\<close>

datatype command = Hincrby string string int | Expire string int

fun run_command :: "backend \<Rightarrow> int \<Rightarrow> command \<Rightarrow> int call" where
  "run_command B now (Hincrby key field increment) = call_hincrby B key field increment"
| "run_command B now (Expire key seconds) = call_expire B key seconds now"

fun exec_loop :: "backend \<Rightarrow> int \<Rightarrow> command list \<Rightarrow> (error option \<times> int option) list
                  \<Rightarrow> (error option \<times> int option) list call" where
  "exec_loop B now [] results = returns results"
| "exec_loop B now (cmd # commands) results =
     await (try_catch
              (await (run_command B now cmd) (\<lambda>result. returns (None, Some result)))
              (\<lambda>error. returns (Some error, None)))
       (\<lambda>r. exec_loop B now commands (results @ [r]))"

definition exec :: "backend \<Rightarrow> int \<Rightarrow> command list \<Rightarrow> (error option \<times> int option) list call" where
  "exec B now commands = exec_loop B now commands []"

subsection \<open>Token counters\<close>

text \<open>
  The date strings come from \<^verbatim>\<open>Date\<close>'s calendar methods through the time zone helpers;
  they are parameters: \<open>today\<close> is \<^verbatim>\<open>YYYY-MM-DD\<close>, \<open>currentMonth\<close> is \<^verbatim>\<open>YYYY-MM\<close>,
  \<open>currentHour\<close> is \<^verbatim>\<open>YYYY-MM-DD:HH\<close>. The model name arrives normalised (the result of
  \<^verbatim>\<open>_normalizeModelName\<close>, a chain of regular-expression replacements).
\<close>

record calendar =
  today :: string
  currentMonth :: string
  currentHour :: string

definition usage_daily_key :: "string \<Rightarrow> calendar \<Rightarrow> string" where
  "usage_daily_key keyId cal = ''usage:daily:'' @ keyId @ '':'' @ today cal"

definition usage_monthly_key :: "string \<Rightarrow> calendar \<Rightarrow> string" where
  "usage_monthly_key keyId cal = ''usage:monthly:'' @ keyId @ '':'' @ currentMonth cal"

definition usage_hourly_key :: "string \<Rightarrow> calendar \<Rightarrow> string" where
  "usage_hourly_key keyId cal = ''usage:hourly:'' @ keyId @ '':'' @ currentHour cal"

definition model_daily_key :: "string \<Rightarrow> calendar \<Rightarrow> string" where
  "model_daily_key normalizedModel cal = ''usage:model:daily:'' @ normalizedModel @ '':'' @ today cal"

definition key_model_daily_key :: "string \<Rightarrow> string \<Rightarrow> calendar \<Rightarrow> string" where
  "key_model_daily_key keyId normalizedModel cal =
     ''usage:'' @ keyId @ '':model:daily:'' @ normalizedModel @ '':'' @ today cal"

definition system_minute_key :: "int \<Rightarrow> string" where
  "system_minute_key now = ''system:metrics:minute:'' @ js_String (now div 60000)"

definition token_commands :: "config \<Rightarrow> int \<Rightarrow> calendar \<Rightarrow> string \<Rightarrow> int \<Rightarrow> int \<Rightarrow> int \<Rightarrow> int \<Rightarrow> int
                              \<Rightarrow> string \<Rightarrow> int \<Rightarrow> int \<Rightarrow> bool \<Rightarrow> command list" where
  "token_commands cfg now cal keyId tokens inputTokens outputTokens cacheCreateTokens
       cacheReadTokens normalizedModel ephemeral5mTokens ephemeral1hTokens isLongContextRequest =
     (let key = ''usage:'' @ keyId;
          daily = usage_daily_key keyId cal;
          monthly = usage_monthly_key keyId cal;
          hourly = usage_hourly_key keyId cal;
          modelDaily = model_daily_key normalizedModel cal;
          keyModelDaily = key_model_daily_key keyId normalizedModel cal;
          systemMinuteKey = system_minute_key now;
          finalInputTokens = inputTokens;
          finalOutputTokens = (if outputTokens \<noteq> 0 then outputTokens
                               else if finalInputTokens > 0 then 0 else tokens);
          finalCacheCreateTokens = cacheCreateTokens;
          finalCacheReadTokens = cacheReadTokens;
          totalTokens = finalInputTokens + finalOutputTokens + finalCacheCreateTokens
                        + finalCacheReadTokens;
          coreTokens = finalInputTokens + finalOutputTokens
      in [Hincrby key ''totalTokens'' coreTokens,
          Hincrby key ''totalInputTokens'' finalInputTokens,
          Hincrby key ''totalOutputTokens'' finalOutputTokens,
          Hincrby key ''totalCacheCreateTokens'' finalCacheCreateTokens,
          Hincrby key ''totalCacheReadTokens'' finalCacheReadTokens,
          Hincrby key ''totalAllTokens'' totalTokens,
          Hincrby key ''totalEphemeral5mTokens'' ephemeral5mTokens,
          Hincrby key ''totalEphemeral1hTokens'' ephemeral1hTokens]
         @ (if isLongContextRequest
            then [Hincrby key ''totalLongContextInputTokens'' finalInputTokens,
                  Hincrby key ''totalLongContextOutputTokens'' finalOutputTokens,
                  Hincrby key ''totalLongContextRequests'' 1]
            else [])
         @ [Hincrby key ''totalRequests'' 1,
            Hincrby daily ''tokens'' coreTokens,
            Hincrby daily ''inputTokens'' finalInputTokens,
            Hincrby daily ''outputTokens'' finalOutputTokens,
            Hincrby daily ''cacheCreateTokens'' finalCacheCreateTokens,
            Hincrby daily ''cacheReadTokens'' finalCacheReadTokens,
            Hincrby daily ''allTokens'' totalTokens,
            Hincrby daily ''requests'' 1,
            Hincrby daily ''ephemeral5mTokens'' ephemeral5mTokens,
            Hincrby daily ''ephemeral1hTokens'' ephemeral1hTokens,
            Hincrby monthly ''tokens'' coreTokens,
            Hincrby monthly ''inputTokens'' finalInputTokens,
            Hincrby monthly ''outputTokens'' finalOutputTokens,
            Hincrby monthly ''cacheCreateTokens'' finalCacheCreateTokens,
            Hincrby monthly ''cacheReadTokens'' finalCacheReadTokens,
            Hincrby monthly ''allTokens'' totalTokens,
            Hincrby monthly ''requests'' 1,
            Hincrby hourly ''tokens'' coreTokens,
            Hincrby hourly ''inputTokens'' finalInputTokens,
            Hincrby hourly ''outputTokens'' finalOutputTokens,
            Hincrby hourly ''allTokens'' totalTokens,
            Hincrby hourly ''requests'' 1,
            Hincrby modelDaily ''inputTokens'' finalInputTokens,
            Hincrby modelDaily ''outputTokens'' finalOutputTokens,
            Hincrby modelDaily ''allTokens'' totalTokens,
            Hincrby modelDaily ''requests'' 1,
            Hincrby keyModelDaily ''inputTokens'' finalInputTokens,
            Hincrby keyModelDaily ''outputTokens'' finalOutputTokens,
            Hincrby keyModelDaily ''allTokens'' totalTokens,
            Hincrby keyModelDaily ''requests'' 1,
            Hincrby systemMinuteKey ''requests'' 1,
            Hincrby systemMinuteKey ''totalTokens'' totalTokens,
            Hincrby systemMinuteKey ''inputTokens'' finalInputTokens,
            Hincrby systemMinuteKey ''outputTokens'' finalOutputTokens,
            Expire daily (86400 * 32),
            Expire monthly (86400 * 365),
            Expire hourly (86400 * 7),
            Expire systemMinuteKey (metricsWindow cfg * 60 * 2)])"

definition incrementTokenUsage :: "backend \<Rightarrow> config \<Rightarrow> int \<Rightarrow> calendar \<Rightarrow> string \<Rightarrow> int \<Rightarrow> int \<Rightarrow> int
                                   \<Rightarrow> int \<Rightarrow> int \<Rightarrow> string \<Rightarrow> int \<Rightarrow> int \<Rightarrow> bool \<Rightarrow> unit call" where
  "incrementTokenUsage B cfg now cal keyId tokens inputTokens outputTokens cacheCreateTokens
       cacheReadTokens normalizedModel ephemeral5mTokens ephemeral1hTokens isLongContextRequest =
     await (exec B now (token_commands cfg now cal keyId tokens inputTokens outputTokens
                          cacheCreateTokens cacheReadTokens normalizedModel ephemeral5mTokens
                          ephemeral1hTokens isLongContextRequest))
       (\<lambda>_. returns ())"

subsection \<open>Cost counters\<close>

text \<open>
  \<^verbatim>\<open>incrbyfloat\<close> is floating-point arithmetic on the stored string. The arithmetic is
  a parameter \<open>fadd\<close>: \<open>fadd current increment\<close> is the string
  \<^verbatim>\<open>((parseFloat(current) || 0) + parseFloat(increment)).toString()\<close>.

  The method runs up to its first \<^verbatim>\<open>await\<close>, which is after the call of \<^verbatim>\<open>this.get\<close>, and
  is resumed later from the microtask queue: \<open>incrbyfloat_resume\<close> is the rest of the
  body. \<^verbatim>\<open>incrementDailyCost\<close> builds the array for \<^verbatim>\<open>Promise.all\<close> by starting four
  \<^verbatim>\<open>incrbyfloat\<close> calls and then three \<^verbatim>\<open>expire\<close> calls. \<^verbatim>\<open>expire\<close> has no \<^verbatim>\<open>await\<close> and runs
  to its end when it is called, so the three run before any \<^verbatim>\<open>incrbyfloat\<close> is resumed.
  These methods are the client's own, which do not throw.
\<close>

definition incrbyfloat_resume :: "(string option \<Rightarrow> 'n \<Rightarrow> string) \<Rightarrow> string \<Rightarrow> 'n \<Rightarrow> string option
                                  \<Rightarrow> int \<Rightarrow> MemoryRedisClient \<Rightarrow> string \<times> MemoryRedisClient" where
  "incrbyfloat_resume fadd key increment current now s =
     (let v = fadd current increment in (v, snd (set_op key v [] now s)))"

definition incrbyfloat :: "(string option \<Rightarrow> 'n \<Rightarrow> string) \<Rightarrow> string \<Rightarrow> 'n \<Rightarrow> int
                           \<Rightarrow> MemoryRedisClient \<Rightarrow> string \<times> MemoryRedisClient" where
  "incrbyfloat fadd key increment now s =
     (case get key now s of (current, s1) \<Rightarrow> incrbyfloat_resume fadd key increment current now s1)"

definition cost_daily_key :: "string \<Rightarrow> calendar \<Rightarrow> string" where
  "cost_daily_key keyId cal = ''usage:cost:daily:'' @ keyId @ '':'' @ today cal"

definition cost_monthly_key :: "string \<Rightarrow> calendar \<Rightarrow> string" where
  "cost_monthly_key keyId cal = ''usage:cost:monthly:'' @ keyId @ '':'' @ currentMonth cal"

definition cost_hourly_key :: "string \<Rightarrow> calendar \<Rightarrow> string" where
  "cost_hourly_key keyId cal = ''usage:cost:hourly:'' @ keyId @ '':'' @ currentHour cal"

definition cost_total_key :: "string \<Rightarrow> string" where
  "cost_total_key keyId = ''usage:cost:total:'' @ keyId"

definition incrementDailyCost :: "(string option \<Rightarrow> 'n \<Rightarrow> string) \<Rightarrow> int \<Rightarrow> calendar \<Rightarrow> string \<Rightarrow> 'n
                                  \<Rightarrow> MemoryRedisClient \<Rightarrow> MemoryRedisClient" where
  "incrementDailyCost fadd now cal keyId amount s =
     (let dailyKey = cost_daily_key keyId cal;
          monthlyKey = cost_monthly_key keyId cal;
          hourlyKey = cost_hourly_key keyId cal;
          totalKey = cost_total_key keyId;
          (daily, s1) = get dailyKey now s;
          (monthly, s2) = get monthlyKey now s1;
          (hourly, s3) = get hourlyKey now s2;
          (total, s4) = get totalKey now s3;
          s5 = snd (expire dailyKey (86400 * 30) now s4);
          s6 = snd (expire monthlyKey (86400 * 90) now s5);
          s7 = snd (expire hourlyKey (86400 * 7) now s6);
          s8 = snd (incrbyfloat_resume fadd dailyKey amount daily now s7);
          s9 = snd (incrbyfloat_resume fadd monthlyKey amount monthly now s8);
          s10 = snd (incrbyfloat_resume fadd hourlyKey amount hourly now s9)
      in snd (incrbyfloat_resume fadd totalKey amount total now s10))"

text \<open>An instance of the arithmetic for whole amounts, on which \<^verbatim>\<open>parseFloat\<close>, the
  sum and \<^verbatim>\<open>toString\<close> are exact: it serves the closed examples.\<close>

definition whole_fadd :: "string option \<Rightarrow> int \<Rightarrow> string" where
  "whole_fadd current increment =
     js_String ((case current of
                   None \<Rightarrow> 0
                 | Some v \<Rightarrow> (case js_parseInt v of None \<Rightarrow> 0 | Some n \<Rightarrow> n)) + increment)"

section \<open>Notions used in the statements\<close>

text \<open>The two local constants of \<^verbatim>\<open>extendSessionAccountMappingTTL\<close>, in seconds.\<close>

definition renewal_threshold :: "config \<Rightarrow> int" where
  "renewal_threshold cfg = js_or (session_setting renewalThresholdMinutes cfg) 0 * 60"

definition full_ttl :: "config \<Rightarrow> int" where
  "full_ttl cfg = js_or (session_setting stickyTtlHours cfg) 1 * 60 * 60"

text \<open>
  The lease set of a subject (empty when the key has no sorted set), its members whose
  score is after \<open>now\<close>, and what a sweep at \<open>now\<close> leaves of a key. \<open>released\<close> is
  what \<^verbatim>\<open>decrConcurrency\<close> leaves of a set: the member removed, then the sweep.
\<close>

definition lease_set :: "string \<Rightarrow> MemoryRedisClient \<Rightarrow> (string \<times> int) list" where
  "lease_set apiKeyId s = (case zsets s (concurrency_key apiKeyId) of None \<Rightarrow> [] | Some z \<Rightarrow> z)"

definition live :: "int \<Rightarrow> (string \<times> int) list \<Rightarrow> (string \<times> int) list" where
  "live now z = filter (\<lambda>(member, score). \<not> score \<le> now) z"

definition swept :: "string \<Rightarrow> int \<Rightarrow> MemoryRedisClient \<Rightarrow> MemoryRedisClient" where
  "swept key now s =
     (case zsets s key of None \<Rightarrow> s | Some z \<Rightarrow> s\<lparr>zsets := (zsets s)(key \<mapsto> live now z)\<rparr>)"

definition released :: "string \<Rightarrow> int \<Rightarrow> (string \<times> int) list \<Rightarrow> (string \<times> int) list" where
  "released requestId now z = live now (if requestId \<noteq> [] then AList.delete requestId z else z)"

text \<open>The lease in seconds that \<^verbatim>\<open>leaseSeconds || defaultLeaseSeconds\<close> selects, and the
  TTL in milliseconds that the lease operations give the key.\<close>

definition effective_lease :: "config \<Rightarrow> int option \<Rightarrow> int" where
  "effective_lease cfg lease_arg = js_or lease_arg (leaseSeconds (getConcurrencyConfig cfg))"

definition key_ttl :: "config \<Rightarrow> int option \<Rightarrow> int" where
  "key_ttl cfg lease_arg = lease_ttl (getConcurrencyConfig cfg) (effective_lease cfg lease_arg)"

text \<open>One pipeline command on the client's own methods.\<close>

definition run_memory :: "int \<Rightarrow> command \<Rightarrow> MemoryRedisClient \<Rightarrow> MemoryRedisClient" where
  "run_memory now cmd s =
     (case cmd of
        Hincrby key field increment \<Rightarrow> snd (hincrby key field increment s)
      | Expire key seconds \<Rightarrow> snd (expire key seconds now s))"

subsection \<open>Example states, settings and backends\<close>

definition default_cfg :: config where
  "default_cfg = \<lparr>concurrency = None, session = None, metricsWindow = 5\<rparr>"

definition sticky_cfg :: config where
  "sticky_cfg = \<lparr>concurrency = None,
                  session = Some \<lparr>stickyTtlHours = Some 1, renewalThresholdMinutes = Some 10\<rparr>,
                  metricsWindow = 5\<rparr>"

text \<open>A configuration whose sticky TTL is negative: \<^verbatim>\<open>stickyTtlHours\<close> is \<open>-1\<close>, the
  renewal threshold 10 minutes.\<close>

definition negative_ttl_cfg :: config where
  "negative_ttl_cfg = \<lparr>concurrency = None,
                        session = Some \<lparr>stickyTtlHours = Some (- 1),
                                        renewalThresholdMinutes = Some 10\<rparr>,
                        metricsWindow = 5\<rparr>"

definition hash_only :: MemoryRedisClient where
  "hash_only = new_client\<lparr>hashes := [''usage:k1'' \<mapsto> [(''totalTokens'', ''15'')]],
                          ttls := [''usage:k1'' \<mapsto> 5000]\<rparr>"

definition held_lock :: MemoryRedisClient where
  "held_lock = new_client\<lparr>store := [''lock:account1'' \<mapsto> ''tokenA''],
                          ttls := [''lock:account1'' \<mapsto> 5000]\<rparr>"

text \<open>A lock key that holds the empty string and has no expiry.\<close>

definition empty_token_lock :: MemoryRedisClient where
  "empty_token_lock = new_client\<lparr>store := [''lock:account1'' \<mapsto> []]\<rparr>"

definition sticky_state :: MemoryRedisClient where
  "sticky_state = new_client\<lparr>store := [''sticky_session:abc'' \<mapsto> ''account1''],
                             ttls := [''sticky_session:abc'' \<mapsto> 105000]\<rparr>"

definition stale_leases :: MemoryRedisClient where
  "stale_leases = new_client\<lparr>zsets := [''concurrency:key1'' \<mapsto> [(''r0'', 5000)]]\<rparr>"

definition stale_pair :: MemoryRedisClient where
  "stale_pair = new_client\<lparr>zsets := [''concurrency:key2'' \<mapsto> [(''r1'', 100), (''r2'', 900)]]\<rparr>"

definition renewable :: MemoryRedisClient where
  "renewable = new_client\<lparr>zsets := [''concurrency:key1'' \<mapsto> [(''r0'', 5000), (''r1'', 20000)]]\<rparr>"

definition cost_cal :: calendar where
  "cost_cal = \<lparr>today = ''2026-11-03'', currentMonth = ''2026-11'', currentHour = ''2026-11-03:14''\<rparr>"

definition cost_state :: MemoryRedisClient where
  "cost_state = new_client\<lparr>store := [''usage:cost:daily:k1:2026-11-03'' \<mapsto> ''5'']\<rparr>"

text \<open>A backend that cannot be reached: every call throws.\<close>

definition unavailable :: backend where
  "unavailable =
     \<lparr>call_get = (\<lambda>key now. throws (Error ''ECONNREFUSED'')),
      call_set = (\<lambda>key val args now. throws (Error ''ECONNREFUSED'')),
      call_del = (\<lambda>keys. throws (Error ''ECONNREFUSED'')),
      call_expire = (\<lambda>key seconds now. throws (Error ''ECONNREFUSED'')),
      call_ttl = (\<lambda>key now. throws (Error ''ECONNREFUSED'')),
      call_hincrby = (\<lambda>key field increment. throws (Error ''ECONNREFUSED'')),
      call_zadd = (\<lambda>key args. throws (Error ''ECONNREFUSED'')),
      call_zrem = (\<lambda>key members. throws (Error ''ECONNREFUSED'')),
      call_zcard = (\<lambda>key now. throws (Error ''ECONNREFUSED'')),
      call_zscore = (\<lambda>key member. throws (Error ''ECONNREFUSED'')),
      call_zremrangebyscore = (\<lambda>key minb maxb. throws (Error ''ECONNREFUSED''))\<rparr>"

text \<open>A backend that answers the writes and fails the reads of a sorted set:
  \<^verbatim>\<open>zcard\<close> and \<^verbatim>\<open>zscore\<close> throw, every other call is the client's own method.\<close>

definition late_failure :: backend where
  "late_failure = memory\<lparr>call_zcard := (\<lambda>key now. throws (Error ''ETIMEDOUT'')),
                          call_zscore := (\<lambda>key member. throws (Error ''ETIMEDOUT''))\<rparr>"

section \<open>Facts about the primitives\<close>

lemmas call_defs = returns_def throws_def await_def try_catch_def ok_def

lemma get_live:
  "fst (get k now s) = Some v \<longleftrightarrow> store s k = Some v \<and> v \<noteq> [] \<and> \<not> isExpired k now s"
  by (auto simp: get_def split: option.splits)

lemma get_state_live: "\<not> isExpired k now s \<Longrightarrow> snd (get k now s) = s"
  by (simp add: get_def split: option.splits)

lemma get_after_get: "fst (get k now (snd (get k now s))) = fst (get k now s)"
  by (simp add: get_def isExpired_def split: option.splits)

lemma get_other:
  "K \<noteq> k \<Longrightarrow> ttls (snd (get k now s)) K = ttls s K"
  "K \<noteq> k \<Longrightarrow> store (snd (get k now s)) K = store s K"
  "K \<noteq> k \<Longrightarrow> isExpired K now (snd (get k now s)) = isExpired K now s"
  "K \<noteq> k \<Longrightarrow> fst (get K now (snd (get k now s))) = fst (get K now s)"
  "ttls s K = None \<Longrightarrow> ttls (snd (get K now s)) K = None"
  by (simp_all add: get_def isExpired_def split: option.splits)

lemma del_single: "snd (del [k] s) = del1 k s"
  by (simp add: del_def)

lemma del_loop_state:
  "store (snd (del_loop keys d s)) k = (if k \<in> set keys then None else store s k)
 \<and> hashes (snd (del_loop keys d s)) k = (if k \<in> set keys then None else hashes s k)
 \<and> lists (snd (del_loop keys d s)) k = (if k \<in> set keys then None else lists s k)
 \<and> zsets (snd (del_loop keys d s)) k = (if k \<in> set keys then None else zsets s k)
 \<and> ttls (snd (del_loop keys d s)) k = (if k \<in> set keys then None else ttls s k)"
  by (induction keys d s rule: del_loop.induct) (auto simp: del1_def)

lemma del_loop_count:
  "fst (del_loop keys d s) = d + card {k \<in> set keys. store s k \<noteq> None}"
proof (induction keys d s rule: del_loop.induct)
  case (1 deleted s)
  then show ?case by simp
next
  case (2 key keys deleted s)
  let ?A = "{k \<in> set keys. store s k \<noteq> None}"
  have a: "{k \<in> set keys. store (del1 key s) k \<noteq> None} = ?A - {key}"
    by (auto simp: del1_def)
  have b: "{k \<in> set (key # keys). store s k \<noteq> None}
           = (if store s key \<noteq> None then insert key (?A - {key}) else ?A - {key})"
    by auto
  show ?case
    unfolding del_loop.simps fst_conv "2.IH" a b by (simp add: card.insert_remove)
qed

lemma ttl_absent:
  "ttl key now s = - 2 \<longleftrightarrow>
     (ttls s key = None \<and> \<not> key_exists key s) \<or> (\<exists>t. ttls s key = Some t \<and> t \<le> now)"
proof (cases "ttls s key")
  case None
  then show ?thesis by (simp add: ttl_def)
next
  case (Some t)
  have "(0 < - ((now - t) div 1000)) = (now < t)"
    by (simp add: neg_less_0_iff_less div_neg_pos_less0 pos_imp_zdiv_neg_iff)
  then show ?thesis using Some by (auto simp: ttl_def Let_def)
qed

lemma ttl_no_expiry:
  "ttl key now s = - 1 \<longleftrightarrow> ttls s key = None \<and> key_exists key s"
  by (cases "ttls s key") (auto simp: ttl_def Let_def)

lemma ttl_range: "ttl key now s = - 2 \<or> ttl key now s = - 1 \<or> 0 < ttl key now s"
  by (cases "ttls s key") (auto simp: ttl_def Let_def)

lemma expire_rewrites:
  assumes "key_exists key s" and "0 < seconds"
  shows "ttls (snd (expire key seconds now s)) key = Some (now + seconds * 1000)
         \<and> ttl key now (snd (expire key seconds now s)) = seconds"
proof -
  have "- (seconds * 1000) = (- seconds) * 1000" by simp
  then have d: "- (seconds * 1000) div 1000 = - seconds"
    by (simp only: nonzero_mult_div_cancel_right)
  show ?thesis using assms by (simp add: expire_def setExpiry_def ttl_def Let_def d)
qed

lemma expire_fields:
  "K \<noteq> k \<Longrightarrow> ttls (snd (expire k sec now s)) K = ttls s K"
  "store (snd (expire k sec now s)) = store s"
  "store s K \<noteq> None \<Longrightarrow> 0 < sec \<Longrightarrow> ttls (snd (expire K sec now s)) K = Some (now + sec * 1000)"
  by (simp_all add: expire_def setExpiry_def key_exists_def)

lemma live_member: "(m, sc) \<in> set (live now z) \<longleftrightarrow> (m, sc) \<in> set z \<and> now < sc"
  by (auto simp: live_def)


lemma live_all: "\<forall>(m, sc) \<in> set z. now < sc \<Longrightarrow> live now z = z"
  by (induction z) (auto simp: live_def)


lemma update_nonempty: "AList.update k v xs \<noteq> []"
  by (cases xs) auto

lemma update_set: "set (AList.update k v xs) \<subseteq> insert (k, v) (set xs)"
  by (induction xs) auto

lemma live_update:
  assumes "now < sc"
  shows "live now (AList.update r sc (live now z)) = AList.update r sc (live now z)"
proof (rule live_all)
  show "\<forall>(m, sc') \<in> set (AList.update r sc (live now z)). now < sc'"
    using update_set [of r sc "live now z"] assms by (auto simp: live_member)
qed

lemma map_of_live_some:
  "map_of (live now z) r = Some sc \<Longrightarrow> (r, sc) \<in> set z \<and> now < sc"
  using map_of_SomeD [of "live now z" r sc] by (simp add: live_member)

lemma released_live: "set (released r now z) \<subseteq> set (live now z)"
  by (auto simp: released_def live_def AList.delete_eq)



lemma sweep_swept: "snd (zremrangebyscore key MinusInf (Score now) s) = swept key now s"
  by (simp add: zremrangebyscore_def swept_def live_def Let_def split: option.splits)

lemma key_ttl_pos: "0 < key_ttl cfg la"
  by (simp add: key_ttl_def lease_ttl_def)

lemma lease_set_upd [simp]:
  "lease_set k (s\<lparr>zsets := (zsets s)(concurrency_key k \<mapsto> Z)\<rparr>) = Z"
  by (simp add: lease_set_def)

lemma lease_set_ttls [simp]: "lease_set k (s\<lparr>ttls := t\<rparr>) = lease_set k s"
  by (simp add: lease_set_def)

lemma lease_set_swept [simp]:
  "lease_set k (swept (concurrency_key k) now s) = live now (lease_set k s)"
  by (simp add: swept_def lease_set_def live_def split: option.splits)

lemma lease_set_del1 [simp]: "lease_set k (del1 (concurrency_key k) s) = []"
  by (simp add: lease_set_def del1_def)

lemma lease_set_none [simp]:
  "lease_set k (s\<lparr>zsets := (zsets s)(concurrency_key k := None)\<rparr>) = []"
  by (simp add: lease_set_def)

lemma set_key_ttl_returns: "fst (set_key_ttl key t now s) = Inr ()"
  by (simp add: set_key_ttl_def)

lemma try_catch_rethrow: "try_catch m (\<lambda>error. throws error) = m"
  by (auto simp: try_catch_def throws_def fun_eq_iff split: prod.splits sum.splits)

section \<open>The operations on the client's own methods\<close>

lemma setAccountLock_memory:
  "setAccountLock memory now k v t s =
     (Inr (fst (set_op k v [Arg_PX t, Arg_NX] now s) = Some ''OK''),
      snd (set_op k v [Arg_PX t, Arg_NX] now s))"
  by (simp add: setAccountLock_def call_defs memory_def split: prod.splits)

lemma releaseAccountLock_memory:
  "releaseAccountLock memory now k tok s =
     (if fst (get k now s) = Some tok
      then (Inr True, snd (del [k] (snd (get k now s))))
      else (Inr False, snd (get k now s)))"
  by (simp add: releaseAccountLock_def call_defs memory_def split: prod.splits)

lemma extend_memory:
  "extendSessionAccountMappingTTL memory cfg now h s =
     (if renewal_threshold cfg = 0 then (Inr True, s)
      else if ttl (session_key h) now s = - 2 then (Inr False, s)
      else if ttl (session_key h) now s = - 1 then (Inr True, s)
      else if ttl (session_key h) now s < renewal_threshold cfg
      then (Inr True, snd (expire (session_key h) (full_ttl cfg) now s))
      else (Inr True, s))"
  by (simp add: extendSessionAccountMappingTTL_def call_defs memory_def Let_def
        renewal_threshold_def full_ttl_def split: prod.splits)

lemma incrConcurrency_memory:
  assumes "requestId \<noteq> []"
  shows "incrConcurrency memory cfg now k requestId la s =
     (Inr (length (AList.update requestId (now + effective_lease cfg la * 1000)
                     (live now (lease_set k s)))),
      s\<lparr>zsets := (zsets s)(concurrency_key k \<mapsto>
                     AList.update requestId (now + effective_lease cfg la * 1000)
                       (live now (lease_set k s))),
        ttls := (ttls s)(concurrency_key k \<mapsto> now + key_ttl cfg la)\<rparr>)"
proof -
  have pos: "0 < lease_ttl (getConcurrencyConfig cfg)
                   (js_or la (leaseSeconds (getConcurrencyConfig cfg)))"
    by (simp add: lease_ttl_def)
  show ?thesis
    using assms pos
    by (cases "zsets s (concurrency_key k)")
       (simp_all add: incrConcurrency_def call_defs memory_def Let_def split_beta
          sweep_swept swept_def zadd_def set_key_ttl_def zcard_def isExpired_def
          lease_set_def effective_lease_def key_ttl_def live_def)
qed

lemma getConcurrency_memory:
  "getConcurrency memory now k s =
     (if isExpired (concurrency_key k) now s
      then (Inr 0, s\<lparr>zsets := (zsets s)(concurrency_key k := None)\<rparr>)
      else (Inr (length (live now (lease_set k s))), swept (concurrency_key k) now s))"
  by (cases "zsets s (concurrency_key k)")
     (simp_all add: getConcurrency_def call_defs memory_def Let_def split_beta
        sweep_swept swept_def zcard_def isExpired_def lease_set_def live_def)

lemma refreshConcurrencyLease_memory:
  assumes "requestId \<noteq> []"
  shows "refreshConcurrencyLease memory cfg now k requestId la s =
     (if map_of (live now (lease_set k s)) requestId \<noteq> None
      then (Inr 1,
            s\<lparr>zsets := (zsets s)(concurrency_key k \<mapsto>
                  AList.update requestId (now + effective_lease cfg la * 1000)
                    (live now (lease_set k s))),
              ttls := (ttls s)(concurrency_key k \<mapsto> now + key_ttl cfg la)\<rparr>)
      else (Inr 0, swept (concurrency_key k) now s))"
proof -
  have pos: "0 < lease_ttl (getConcurrencyConfig cfg)
                   (js_or la (leaseSeconds (getConcurrencyConfig cfg)))"
    by (simp add: lease_ttl_def)
  show ?thesis
    using assms pos
    by (cases "zsets s (concurrency_key k)")
       (simp_all add: refreshConcurrencyLease_def call_defs memory_def Let_def split_beta
          sweep_swept swept_def zadd_def set_key_ttl_def zscore_def
          lease_set_def effective_lease_def key_ttl_def live_def)
qed

lemma decrConcurrency_memory:
  "decrConcurrency memory now k requestId s =
     (if isExpired (concurrency_key k) now s \<or> released requestId now (lease_set k s) = []
      then (Inr 0, del1 (concurrency_key k) s)
      else (Inr (length (released requestId now (lease_set k s))),
            s\<lparr>zsets := (zsets s)(concurrency_key k \<mapsto> released requestId now (lease_set k s))\<rparr>))"
  by (cases "zsets s (concurrency_key k)")
     (simp_all add: decrConcurrency_def call_defs memory_def Let_def split_beta
        sweep_swept swept_def zcard_def isExpired_def lease_set_def
        zrem_def del_def del1_def released_def live_def split: option.splits)

lemma exec_loop_memory:
  "\<exists>rs'. exec_loop memory now cmds rs s = (Inr rs', fold (run_memory now) cmds s)"
proof (induction cmds arbitrary: rs s)
  case Nil
  then show ?case by (simp add: returns_def)
next
  case (Cons cmd cmds)
  obtain r where step:
    "try_catch (await (run_command memory now cmd) (\<lambda>result. returns (None, Some result)))
       (\<lambda>error. returns (Some error, None)) s = (Inr r, run_memory now cmd s)"
    by (cases cmd) (simp_all add: call_defs memory_def run_memory_def split_beta)
  show ?case
    using Cons.IH [of "rs @ [r]" "run_memory now cmd s"]
    by (simp add: await_def step)
qed

lemma incrementTokenUsage_memory:
  "incrementTokenUsage memory cfg now cal keyId tokens i out cc cr m e5 e1 lc s =
     (Inr (), fold (run_memory now)
                (token_commands cfg now cal keyId tokens i out cc cr m e5 e1 lc) s)"
  using exec_loop_memory
          [of now "token_commands cfg now cal keyId tokens i out cc cr m e5 e1 lc" "[]" s]
  by (auto simp: incrementTokenUsage_def exec_def await_def returns_def)

section \<open>Account locks\<close>

text \<open>
  Claim C1. \<^verbatim>\<open>setAccountLock\<close> is to answer true exactly when the key was free, and to
  leave a held lock's value alone. The code does neither: \<^verbatim>\<open>set\<close> writes the value
  before it looks at \<^verbatim>\<open>NX\<close>, and \<^verbatim>\<open>PX\<close> has just given the key a fresh expiry, so the
  \<^verbatim>\<open>NX\<close> test always finds a live key. With a positive \<open>ttlMs\<close> the call answers false
  in every state, and the new value and expiry are stored all the same.
\<close>

theorem setAccountLock_never_acquires:
  "0 < ttlMs \<Longrightarrow>
     fst (setAccountLock memory now lockKey lockValue ttlMs s) = Inr False
     \<and> store (snd (setAccountLock memory now lockKey lockValue ttlMs s)) lockKey = Some lockValue
     \<and> ttls (snd (setAccountLock memory now lockKey lockValue ttlMs s)) lockKey = Some (now + ttlMs)"
  by (simp add: setAccountLock_memory set_op_def isExpired_def)

theorem setAccountLock_on_free_key:
  "(0::int) < 1000
   \<and> store new_client ''lock:account1'' = None
   \<and> fst (setAccountLock memory 0 ''lock:account1'' ''tokenA'' 1000 new_client) = Inr False
   \<and> store (snd (setAccountLock memory 0 ''lock:account1'' ''tokenA'' 1000 new_client))
        ''lock:account1'' = Some ''tokenA''"
proof -
  have h: "(0::int) < 1000" by simp
  from setAccountLock_never_acquires [OF h, of 0 "''lock:account1''" "''tokenA''" new_client]
  show ?thesis by (simp add: new_client_def)
qed

text \<open>The same on a lock that another holder owns: the answer is false and the
  holder's token is replaced.\<close>

lemma setAccountLock_overwrites_held_lock:
  "fst (get ''lock:account1'' 1000 held_lock) = Some ''tokenA''
   \<and> fst (setAccountLock memory 1000 ''lock:account1'' ''tokenB'' 3000 held_lock) = Inr False
   \<and> fst (get ''lock:account1'' 1000
            (snd (setAccountLock memory 1000 ''lock:account1'' ''tokenB'' 3000 held_lock)))
       = Some ''tokenB''"
  by (simp add: setAccountLock_memory set_op_def isExpired_def held_lock_def new_client_def get_def)

text \<open>
  Claim C9, as amended. \<^verbatim>\<open>releaseAccountLock\<close> answers true, and deletes the key, exactly
  when the value that \<^verbatim>\<open>get\<close> reads for the key is the token. The value read is the
  stored one unless the key has expired or holds the empty string, which both read as
  \<^verbatim>\<open>null\<close>: so the answer is true exactly when the key has not expired and the stored
  value is the token and is not empty. After a release that succeeded the key is gone and
  any further release answers false. A release with another token answers false and does
  nothing but the read: the value read afterwards is the same, and a key that has not
  expired is left as it was.
\<close>

theorem releaseAccountLock_compare_and_delete:
  "fst (releaseAccountLock memory now lockKey token s) = Inr (fst (get lockKey now s) = Some token)
   \<and> (fst (get lockKey now s) = Some token \<longleftrightarrow>
        store s lockKey = Some token \<and> token \<noteq> [] \<and> \<not> isExpired lockKey now s)
   \<and> (fst (get lockKey now s) = Some token \<longrightarrow>
        \<not> key_exists lockKey (snd (releaseAccountLock memory now lockKey token s))
        \<and> fst (releaseAccountLock memory now lockKey token'
                 (snd (releaseAccountLock memory now lockKey token s))) = Inr False)
   \<and> (fst (get lockKey now s) \<noteq> Some token \<longrightarrow>
        snd (releaseAccountLock memory now lockKey token s) = snd (get lockKey now s)
        \<and> fst (get lockKey now (snd (releaseAccountLock memory now lockKey token s)))
            = fst (get lockKey now s)
        \<and> (\<not> isExpired lockKey now s \<longrightarrow>
              snd (releaseAccountLock memory now lockKey token s) = s))"
  by (simp add: releaseAccountLock_memory get_live get_state_live get_after_get del_single)
     (auto simp: del1_def key_exists_def get_def isExpired_def)

text \<open>The scenario of the specification on a lock held with token A: a release with B
  answers false and A stays; a release with A answers true; a second one answers false.\<close>

theorem releaseAccountLock_scenario:
  "fst (get ''lock:account1'' 1000 held_lock) = Some ''tokenA''
   \<and> fst (releaseAccountLock memory 1000 ''lock:account1'' ''tokenB'' held_lock) = Inr False
   \<and> snd (releaseAccountLock memory 1000 ''lock:account1'' ''tokenB'' held_lock) = held_lock
   \<and> fst (releaseAccountLock memory 1000 ''lock:account1'' ''tokenA'' held_lock) = Inr True
   \<and> \<not> key_exists ''lock:account1''
         (snd (releaseAccountLock memory 1000 ''lock:account1'' ''tokenA'' held_lock))
   \<and> fst (releaseAccountLock memory 1000 ''lock:account1'' ''tokenA''
            (snd (releaseAccountLock memory 1000 ''lock:account1'' ''tokenA'' held_lock)))
       = Inr False"
proof -
  have live: "\<not> isExpired ''lock:account1'' 1000 held_lock"
    by (simp add: isExpired_def held_lock_def new_client_def)
  have a: "fst (get ''lock:account1'' 1000 held_lock) = Some ''tokenA''"
    by (simp add: get_def isExpired_def held_lock_def new_client_def)
  have b: "fst (get ''lock:account1'' 1000 held_lock) \<noteq> Some ''tokenB''"
    by (simp add: a)
  from releaseAccountLock_compare_and_delete
         [of 1000 "''lock:account1''" "''tokenB''" held_lock "''tokenB''"] b live
  have 1: "fst (releaseAccountLock memory 1000 ''lock:account1'' ''tokenB'' held_lock) = Inr False
           \<and> snd (releaseAccountLock memory 1000 ''lock:account1'' ''tokenB'' held_lock) = held_lock"
    by auto
  from releaseAccountLock_compare_and_delete
         [of 1000 "''lock:account1''" "''tokenA''" held_lock "''tokenA''"] a
  have 2: "fst (releaseAccountLock memory 1000 ''lock:account1'' ''tokenA'' held_lock) = Inr True
     \<and> \<not> key_exists ''lock:account1''
           (snd (releaseAccountLock memory 1000 ''lock:account1'' ''tokenA'' held_lock))
     \<and> fst (releaseAccountLock memory 1000 ''lock:account1'' ''tokenA''
              (snd (releaseAccountLock memory 1000 ''lock:account1'' ''tokenA'' held_lock)))
         = Inr False"
    by simp
  from a 1 2 show ?thesis by simp
qed

text \<open>The claim as it was worded fails on the empty token: the key holds the empty
  string and has not expired, the token is the empty string, so the stored value equals
  the token; the release answers false and the key is left as it was.\<close>

theorem releaseAccountLock_empty_token:
  "store empty_token_lock ''lock:account1'' = Some []
   \<and> \<not> isExpired ''lock:account1'' 1000 empty_token_lock
   \<and> releaseAccountLock memory 1000 ''lock:account1'' [] empty_token_lock
       = (Inr False, empty_token_lock)"
  by (simp add: releaseAccountLock_memory get_def isExpired_def empty_token_lock_def
        new_client_def)

section \<open>Deleting keys\<close>

text \<open>
  Claim C10. The number \<^verbatim>\<open>del\<close> answers is the number of its keys that were in the
  plain string store. Every key it is given is gone afterwards from all of \<^verbatim>\<open>store\<close>,
  \<^verbatim>\<open>hashes\<close>, \<^verbatim>\<open>lists\<close>, \<^verbatim>\<open>zsets\<close> and \<^verbatim>\<open>ttls\<close>; a key that was only a hash (or a
  list, or a sorted set) is removed and counted as 0.
\<close>

theorem del_counts_plain_keys_only:
  "fst (del keys s) = card {k \<in> set keys. store s k \<noteq> None}
   \<and> (\<forall>k. k \<in> set keys \<longrightarrow> \<not> key_exists k (snd (del keys s)) \<and> ttls (snd (del keys s)) k = None)
   \<and> (store s key = None \<and> key_exists key s \<longrightarrow>
        fst (del [key] s) = 0 \<and> \<not> key_exists key (snd (del [key] s)))"
  unfolding del_def
  by (simp add: del_loop_count del_loop_state key_exists_def del1_def)

theorem del_hash_only_key:
  "store hash_only ''usage:k1'' = None
   \<and> key_exists ''usage:k1'' hash_only
   \<and> fst (del [''usage:k1''] hash_only) = 0
   \<and> \<not> key_exists ''usage:k1'' (snd (del [''usage:k1''] hash_only))
   \<and> ttls (snd (del [''usage:k1''] hash_only)) ''usage:k1'' = None"
proof -
  have h: "store hash_only ''usage:k1'' = None \<and> key_exists ''usage:k1'' hash_only"
    by (simp add: hash_only_def new_client_def key_exists_def)
  from del_counts_plain_keys_only [of "[''usage:k1'']" hash_only "''usage:k1''"] h
  show ?thesis by simp
qed

section \<open>Sticky sessions\<close>

text \<open>
  Claim C8, as amended. \<^verbatim>\<open>extendSessionAccountMappingTTL\<close> follows the lazy-renewal
  rules, the renewal being the call \<^verbatim>\<open>expire(key, fullTTL)\<close>. With a renewal threshold of
  zero it answers true and leaves the state alone whatever the backend is, so it makes no
  call. Otherwise it asks for the TTL of the session key, which is \<open>-2\<close> (absent: no
  expiry recorded and no value anywhere, or an expiry that has passed), \<open>-1\<close> (no
  expiry) or the positive number of seconds left. It answers false on \<open>-2\<close> and true on
  \<open>-1\<close>, both without a write. With seconds left below the threshold it answers true
  after \<^verbatim>\<open>expire(key, fullTTL)\<close>: for a held key and a positive full TTL that stores the
  expiry \<open>now + fullTTL\<close>, so that the TTL reads \<open>fullTTL\<close> again; for a full TTL that
  is not positive, or a key that is not held, it writes nothing. With seconds left at or
  above the threshold it answers true without a write.
\<close>

theorem extendSessionAccountMappingTTL_rules:
  "(renewal_threshold cfg = 0 \<longrightarrow>
      extendSessionAccountMappingTTL B cfg now h s = (Inr True, s))
   \<and> (ttl (session_key h) now s = - 2 \<or> ttl (session_key h) now s = - 1
        \<or> 0 < ttl (session_key h) now s)
   \<and> (ttl (session_key h) now s = - 2 \<longleftrightarrow>
        (ttls s (session_key h) = None \<and> \<not> key_exists (session_key h) s)
        \<or> (\<exists>t. ttls s (session_key h) = Some t \<and> t \<le> now))
   \<and> (ttl (session_key h) now s = - 1 \<longleftrightarrow>
        ttls s (session_key h) = None \<and> key_exists (session_key h) s)
   \<and> (renewal_threshold cfg \<noteq> 0 \<and> ttl (session_key h) now s = - 2 \<longrightarrow>
        extendSessionAccountMappingTTL memory cfg now h s = (Inr False, s))
   \<and> (renewal_threshold cfg \<noteq> 0 \<and> ttl (session_key h) now s = - 1 \<longrightarrow>
        extendSessionAccountMappingTTL memory cfg now h s = (Inr True, s))
   \<and> (renewal_threshold cfg \<noteq> 0 \<and> 0 < ttl (session_key h) now s
        \<and> ttl (session_key h) now s < renewal_threshold cfg \<longrightarrow>
        extendSessionAccountMappingTTL memory cfg now h s
          = (Inr True, snd (expire (session_key h) (full_ttl cfg) now s))
        \<and> (key_exists (session_key h) s \<and> 0 < full_ttl cfg \<longrightarrow>
             ttls (snd (extendSessionAccountMappingTTL memory cfg now h s)) (session_key h)
               = Some (now + full_ttl cfg * 1000)
             \<and> ttl (session_key h) now (snd (extendSessionAccountMappingTTL memory cfg now h s))
               = full_ttl cfg)
        \<and> (\<not> key_exists (session_key h) s \<or> full_ttl cfg \<le> 0 \<longrightarrow>
             snd (extendSessionAccountMappingTTL memory cfg now h s) = s))
   \<and> (renewal_threshold cfg \<noteq> 0 \<and> 0 < ttl (session_key h) now s
        \<and> renewal_threshold cfg \<le> ttl (session_key h) now s \<longrightarrow>
        extendSessionAccountMappingTTL memory cfg now h s = (Inr True, s))"
proof -
  let ?t = "ttl (session_key h) now s"
  have c1: "renewal_threshold cfg = 0 \<longrightarrow>
              extendSessionAccountMappingTTL B cfg now h s = (Inr True, s)"
    by (simp add: extendSessionAccountMappingTTL_def renewal_threshold_def returns_def Let_def)
  have c2: "?t = - 2 \<or> ?t = - 1 \<or> 0 < ?t"
    by (rule ttl_range)
  have c3: "?t = - 2 \<longleftrightarrow>
        (ttls s (session_key h) = None \<and> \<not> key_exists (session_key h) s)
        \<or> (\<exists>t. ttls s (session_key h) = Some t \<and> t \<le> now)"
    by (rule ttl_absent)
  have c4: "?t = - 1 \<longleftrightarrow> ttls s (session_key h) = None \<and> key_exists (session_key h) s"
    by (rule ttl_no_expiry)
  have c5: "renewal_threshold cfg \<noteq> 0 \<and> ?t = - 2 \<longrightarrow>
              extendSessionAccountMappingTTL memory cfg now h s = (Inr False, s)"
    by (simp add: extend_memory)
  have c6: "renewal_threshold cfg \<noteq> 0 \<and> ?t = - 1 \<longrightarrow>
              extendSessionAccountMappingTTL memory cfg now h s = (Inr True, s)"
    by (simp add: extend_memory)
  have c7a: "renewal_threshold cfg \<noteq> 0 \<and> 0 < ?t \<and> ?t < renewal_threshold cfg \<longrightarrow>
        extendSessionAccountMappingTTL memory cfg now h s
          = (Inr True, snd (expire (session_key h) (full_ttl cfg) now s))"
    by (simp add: extend_memory)
  have c7b: "key_exists (session_key h) s \<and> 0 < full_ttl cfg \<longrightarrow>
        ttls (snd (expire (session_key h) (full_ttl cfg) now s)) (session_key h)
          = Some (now + full_ttl cfg * 1000)
        \<and> ttl (session_key h) now (snd (expire (session_key h) (full_ttl cfg) now s))
          = full_ttl cfg"
    using expire_rewrites [of "session_key h" s "full_ttl cfg" now] by blast
  have c7c: "\<not> key_exists (session_key h) s \<or> full_ttl cfg \<le> 0 \<longrightarrow>
        snd (expire (session_key h) (full_ttl cfg) now s) = s"
    by (auto simp: expire_def setExpiry_def)
  have c7: "renewal_threshold cfg \<noteq> 0 \<and> 0 < ?t \<and> ?t < renewal_threshold cfg \<longrightarrow>
        extendSessionAccountMappingTTL memory cfg now h s
          = (Inr True, snd (expire (session_key h) (full_ttl cfg) now s))
        \<and> (key_exists (session_key h) s \<and> 0 < full_ttl cfg \<longrightarrow>
             ttls (snd (extendSessionAccountMappingTTL memory cfg now h s)) (session_key h)
               = Some (now + full_ttl cfg * 1000)
             \<and> ttl (session_key h) now (snd (extendSessionAccountMappingTTL memory cfg now h s))
               = full_ttl cfg)
        \<and> (\<not> key_exists (session_key h) s \<or> full_ttl cfg \<le> 0 \<longrightarrow>
             snd (extendSessionAccountMappingTTL memory cfg now h s) = s)"
  proof (intro impI)
    assume a: "renewal_threshold cfg \<noteq> 0 \<and> 0 < ?t \<and> ?t < renewal_threshold cfg"
    with c7a have e: "extendSessionAccountMappingTTL memory cfg now h s
          = (Inr True, snd (expire (session_key h) (full_ttl cfg) now s))"
      by blast
    from c7b c7c show "extendSessionAccountMappingTTL memory cfg now h s
          = (Inr True, snd (expire (session_key h) (full_ttl cfg) now s))
        \<and> (key_exists (session_key h) s \<and> 0 < full_ttl cfg \<longrightarrow>
             ttls (snd (extendSessionAccountMappingTTL memory cfg now h s)) (session_key h)
               = Some (now + full_ttl cfg * 1000)
             \<and> ttl (session_key h) now (snd (extendSessionAccountMappingTTL memory cfg now h s))
               = full_ttl cfg)
        \<and> (\<not> key_exists (session_key h) s \<or> full_ttl cfg \<le> 0 \<longrightarrow>
             snd (extendSessionAccountMappingTTL memory cfg now h s) = s)"
      unfolding e snd_conv by blast
  qed
  have c8: "renewal_threshold cfg \<noteq> 0 \<and> 0 < ?t \<and> renewal_threshold cfg \<le> ?t \<longrightarrow>
              extendSessionAccountMappingTTL memory cfg now h s = (Inr True, s)"
    by (simp add: extend_memory)
  from c1 c2 c3 c4 c5 c6 c7 c8 show ?thesis by (intro conjI)
qed

theorem extendSessionAccountMappingTTL_renews:
  "renewal_threshold sticky_cfg = 600 \<and> full_ttl sticky_cfg = 3600
   \<and> ttl ''sticky_session:abc'' 100000 sticky_state = 5
   \<and> key_exists ''sticky_session:abc'' sticky_state
   \<and> fst (extendSessionAccountMappingTTL memory sticky_cfg 100000 ''abc'' sticky_state) = Inr True
   \<and> ttls (snd (extendSessionAccountMappingTTL memory sticky_cfg 100000 ''abc'' sticky_state))
        ''sticky_session:abc'' = Some 3700000
   \<and> ttl ''sticky_session:abc'' 100000
        (snd (extendSessionAccountMappingTTL memory sticky_cfg 100000 ''abc'' sticky_state)) = 3600"
proof -
  have k: "session_key ''abc'' = ''sticky_session:abc''"
    by (simp add: session_key_def)
  have th: "renewal_threshold sticky_cfg = 600"
    by (simp add: renewal_threshold_def sticky_cfg_def session_setting_def js_or_def)
  have full: "full_ttl sticky_cfg = 3600"
    by (simp add: full_ttl_def sticky_cfg_def session_setting_def js_or_def)
  have left: "ttl ''sticky_session:abc'' 100000 sticky_state = 5"
    by (simp add: ttl_def sticky_state_def new_client_def)
  have held: "key_exists ''sticky_session:abc'' sticky_state"
    by (simp add: key_exists_def sticky_state_def new_client_def)
  from extendSessionAccountMappingTTL_rules [of sticky_cfg memory 100000 "''abc''" sticky_state]
  have "fst (extendSessionAccountMappingTTL memory sticky_cfg 100000 ''abc'' sticky_state) = Inr True
     \<and> ttls (snd (extendSessionAccountMappingTTL memory sticky_cfg 100000 ''abc'' sticky_state))
          ''sticky_session:abc'' = Some 3700000
     \<and> ttl ''sticky_session:abc'' 100000
          (snd (extendSessionAccountMappingTTL memory sticky_cfg 100000 ''abc'' sticky_state)) = 3600"
    unfolding k th full left using held by auto
  with th full left held show ?thesis by simp
qed

text \<open>The claim as it was worded fails on a configuration whose full TTL is not
  positive. With \<^verbatim>\<open>stickyTtlHours\<close> \<open>-1\<close> and a threshold of 600 seconds, a held
  session with 5 seconds left is below the threshold; the call answers true and the
  expiry is the one it was, not a full TTL.\<close>

theorem extendSessionAccountMappingTTL_negative_full_ttl:
  "renewal_threshold negative_ttl_cfg = 600
   \<and> full_ttl negative_ttl_cfg = - 3600
   \<and> key_exists ''sticky_session:abc'' sticky_state
   \<and> ttl ''sticky_session:abc'' 100000 sticky_state = 5
   \<and> extendSessionAccountMappingTTL memory negative_ttl_cfg 100000 ''abc'' sticky_state
       = (Inr True, sticky_state)
   \<and> ttls sticky_state ''sticky_session:abc'' = Some 105000
   \<and> ttl ''sticky_session:abc'' 100000
         (snd (extendSessionAccountMappingTTL memory negative_ttl_cfg 100000 ''abc'' sticky_state))
       = 5"
  by (simp add: extend_memory renewal_threshold_def full_ttl_def negative_ttl_cfg_def
        session_setting_def js_or_def session_key_def ttl_def sticky_state_def new_client_def
        expire_def key_exists_def setExpiry_def)

section \<open>Concurrency leases\<close>

text \<open>
  Claim C5, as amended. For a non-empty request id, \<^verbatim>\<open>incrConcurrency\<close> sweeps the
  members with score at most \<open>now\<close>, stores the request id with score
  \<open>now + lease * 1000\<close> and answers the size of the set, which is at least 1. When the
  lease in effect is positive, \<^verbatim>\<open>getConcurrency\<close> at the same \<open>now\<close> answers the same
  count and leaves the state as it is.
\<close>

theorem acquire_then_count:
  "requestId \<noteq> [] \<Longrightarrow>
     lease_set k (snd (incrConcurrency memory cfg now k requestId la s))
       = AList.update requestId (now + effective_lease cfg la * 1000) (live now (lease_set k s))
     \<and> fst (incrConcurrency memory cfg now k requestId la s)
       = Inr (length (lease_set k (snd (incrConcurrency memory cfg now k requestId la s))))
     \<and> 1 \<le> length (lease_set k (snd (incrConcurrency memory cfg now k requestId la s)))
     \<and> (0 < effective_lease cfg la \<longrightarrow>
          getConcurrency memory now k (snd (incrConcurrency memory cfg now k requestId la s))
            = incrConcurrency memory cfg now k requestId la s)"
proof -
  assume r: "requestId \<noteq> []"
  let ?Z = "AList.update requestId (now + effective_lease cfg la * 1000) (live now (lease_set k s))"
  let ?s' = "s\<lparr>zsets := (zsets s)(concurrency_key k \<mapsto> ?Z),
               ttls := (ttls s)(concurrency_key k \<mapsto> now + key_ttl cfg la)\<rparr>"
  have eq: "incrConcurrency memory cfg now k requestId la s = (Inr (length ?Z), ?s')"
    by (rule incrConcurrency_memory [OF r])
  have ne: "1 \<le> length ?Z"
    using update_nonempty [of requestId _ "live now (lease_set k s)"]
    by (cases ?Z) auto
  have rb: "getConcurrency memory now k ?s' = (Inr (length ?Z), ?s')"
    if pos: "0 < effective_lease cfg la"
  proof -
    have lv: "live now ?Z = ?Z"
      by (rule live_update) (use pos in simp)
    have fresh: "\<not> isExpired (concurrency_key k) now ?s'"
      using key_ttl_pos [of cfg la] by (simp add: isExpired_def)
    show ?thesis
      unfolding getConcurrency_memory using fresh
      by (simp add: lv swept_def)
  qed
  show ?thesis
    unfolding eq using ne rb by simp
qed

theorem acquire_then_count_first_lease:
  "''r1'' \<noteq> [] \<and> 0 < effective_lease default_cfg (Some 5)
   \<and> fst (incrConcurrency memory default_cfg 0 ''key1'' ''r1'' (Some 5) new_client) = Inr 1
   \<and> lease_set ''key1'' (snd (incrConcurrency memory default_cfg 0 ''key1'' ''r1'' (Some 5) new_client))
       = [(''r1'', 5000)]
   \<and> fst (getConcurrency memory 0 ''key1''
            (snd (incrConcurrency memory default_cfg 0 ''key1'' ''r1'' (Some 5) new_client)))
       = Inr 1"
proof -
  have r: "''r1'' \<noteq> []" by simp
  have el: "effective_lease default_cfg (Some 5) = 5"
    by (simp add: effective_lease_def js_or_def)
  have ls: "lease_set ''key1'' new_client = []"
    by (simp add: lease_set_def new_client_def)
  from acquire_then_count [OF r, of "''key1''" default_cfg 0 "Some 5" new_client]
  have "fst (incrConcurrency memory default_cfg 0 ''key1'' ''r1'' (Some 5) new_client) = Inr 1
     \<and> lease_set ''key1'' (snd (incrConcurrency memory default_cfg 0 ''key1'' ''r1'' (Some 5) new_client))
         = [(''r1'', 5000)]
     \<and> fst (getConcurrency memory 0 ''key1''
              (snd (incrConcurrency memory default_cfg 0 ''key1'' ''r1'' (Some 5) new_client)))
         = Inr 1"
    by (simp add: el ls live_def)
  with r el show ?thesis by simp
qed

text \<open>With a lease of \<open>-1\<close> second the member is stored with a score before \<open>now\<close>:
  \<^verbatim>\<open>incrConcurrency\<close> answers 1 and \<^verbatim>\<open>getConcurrency\<close>, at the same \<open>now\<close>, answers 0.\<close>

theorem acquire_negative_lease:
  "fst (incrConcurrency memory default_cfg 10000 ''key1'' ''r1'' (Some (- 1)) new_client) = Inr 1
   \<and> fst (getConcurrency memory 10000 ''key1''
            (snd (incrConcurrency memory default_cfg 10000 ''key1'' ''r1'' (Some (- 1)) new_client)))
       = Inr 0"
  by (simp add: incrConcurrency_memory getConcurrency_memory lease_set_def new_client_def
        live_def effective_lease_def js_or_def isExpired_def key_ttl_def lease_ttl_def
        default_cfg_def getConcurrencyConfig_def)

text \<open>
  Claim C6, as amended. With an empty request id \<^verbatim>\<open>refreshConcurrencyLease\<close> answers 0
  and touches nothing, not even by a sweep. With a non-empty one it sweeps first; if the
  request id is still a member, its score becomes \<open>now + lease * 1000\<close>, the key gets
  a fresh, positive TTL, and the answer is 1; otherwise the answer is 0, the state is the
  swept one, and the request id is not a member of it.
\<close>

theorem renew_rules:
  "(requestId = [] \<longrightarrow> refreshConcurrencyLease memory cfg now k requestId la s = (Inr 0, s))
   \<and> (requestId \<noteq> [] \<and> map_of (live now (lease_set k s)) requestId \<noteq> None \<longrightarrow>
        fst (refreshConcurrencyLease memory cfg now k requestId la s) = Inr 1
        \<and> lease_set k (snd (refreshConcurrencyLease memory cfg now k requestId la s))
            = AList.update requestId (now + effective_lease cfg la * 1000) (live now (lease_set k s))
        \<and> ttls (snd (refreshConcurrencyLease memory cfg now k requestId la s)) (concurrency_key k)
            = Some (now + key_ttl cfg la)
        \<and> 0 < key_ttl cfg la)
   \<and> (requestId \<noteq> [] \<and> map_of (live now (lease_set k s)) requestId = None \<longrightarrow>
        refreshConcurrencyLease memory cfg now k requestId la s
          = (Inr 0, swept (concurrency_key k) now s)
        \<and> lease_set k (snd (refreshConcurrencyLease memory cfg now k requestId la s))
            = live now (lease_set k s)
        \<and> map_of (lease_set k (snd (refreshConcurrencyLease memory cfg now k requestId la s)))
             requestId = None)"
proof (cases "requestId = []")
  case True
  then show ?thesis by (simp add: refreshConcurrencyLease_def returns_def)
next
  case False
  show ?thesis
    using False key_ttl_pos [of cfg la]
    by (simp add: refreshConcurrencyLease_memory [OF False])
qed

theorem renew_rules_on_two_leases:
  "''r1'' \<noteq> [] \<and> map_of (live 10000 (lease_set ''key1'' renewable)) ''r1'' \<noteq> None
   \<and> fst (refreshConcurrencyLease memory default_cfg 10000 ''key1'' ''r1'' None renewable) = Inr 1
   \<and> lease_set ''key1'' (snd (refreshConcurrencyLease memory default_cfg 10000 ''key1'' ''r1'' None renewable))
       = [(''r1'', 310000)]
   \<and> ''r0'' \<noteq> [] \<and> map_of (live 10000 (lease_set ''key1'' renewable)) ''r0'' = None
   \<and> fst (refreshConcurrencyLease memory default_cfg 10000 ''key1'' ''r0'' None renewable) = Inr 0
   \<and> lease_set ''key1'' (snd (refreshConcurrencyLease memory default_cfg 10000 ''key1'' ''r0'' None renewable))
       = [(''r1'', 20000)]"
proof -
  have ls: "lease_set ''key1'' renewable = [(''r0'', 5000), (''r1'', 20000)]"
    by (simp add: renewable_def new_client_def lease_set_def concurrency_key_def)
  have lv: "live 10000 (lease_set ''key1'' renewable) = [(''r1'', 20000)]"
    by (simp add: ls live_def)
  have el: "effective_lease default_cfg None = 300"
    by (simp add: effective_lease_def js_or_def default_cfg_def getConcurrencyConfig_def)
  have h1: "''r1'' \<noteq> [] \<and> map_of (live 10000 (lease_set ''key1'' renewable)) ''r1'' \<noteq> None"
    by (simp add: lv)
  have h0: "''r0'' \<noteq> [] \<and> map_of (live 10000 (lease_set ''key1'' renewable)) ''r0'' = None"
    by (simp add: lv)
  from renew_rules [of "''r1''" default_cfg 10000 "''key1''" None renewable] h1
  have c1: "fst (refreshConcurrencyLease memory default_cfg 10000 ''key1'' ''r1'' None renewable) = Inr 1
     \<and> lease_set ''key1'' (snd (refreshConcurrencyLease memory default_cfg 10000 ''key1'' ''r1'' None renewable))
         = [(''r1'', 310000)]"
    by (simp add: lv el)
  from renew_rules [of "''r0''" default_cfg 10000 "''key1''" None renewable] h0
  have c0: "fst (refreshConcurrencyLease memory default_cfg 10000 ''key1'' ''r0'' None renewable) = Inr 0
     \<and> lease_set ''key1'' (snd (refreshConcurrencyLease memory default_cfg 10000 ''key1'' ''r0'' None renewable))
         = [(''r1'', 20000)]"
    by (simp add: lv)
  from h1 h0 c1 c0 show ?thesis by blast
qed

text \<open>A renewal with the empty request id at time 10000 on a set whose only member
  expired at 5000: the answer is 0 and the state is untouched, so the expired member is
  still there, where a sweep would have left the set empty.\<close>

theorem renew_empty_id_skips_sweep:
  "refreshConcurrencyLease memory default_cfg 10000 ''key1'' [] None stale_leases
     = (Inr 0, stale_leases)
   \<and> lease_set ''key1'' stale_leases = [(''r0'', 5000)]
   \<and> live 10000 (lease_set ''key1'' stale_leases) = []"
  by (simp add: refreshConcurrencyLease_def returns_def stale_leases_def new_client_def
        lease_set_def concurrency_key_def live_def)

text \<open>
  Claim C2, as amended. \<^verbatim>\<open>getConcurrency\<close> and \<^verbatim>\<open>decrConcurrency\<close> answer the size of
  the set they leave behind, and every member of that set was a member with a score
  after \<open>now\<close>: no expired entry is counted. What \<^verbatim>\<open>getConcurrency\<close> leaves is the
  members with a score after \<open>now\<close>, or nothing when the key's own TTL has run out. \<^verbatim>\<open>refreshConcurrencyLease\<close> answers 0 or 1,
  and 1 only for a request id that was a member with a score after \<open>now\<close>. Called with a
  non-empty request id it leaves no other member than the renewed one with a score at or
  before \<open>now\<close>; called with the empty request id it answers 0 and reads nothing.
\<close>

theorem expired_leases_never_counted:
  "fst (getConcurrency memory now k s) = Inr (length (lease_set k (snd (getConcurrency memory now k s))))
   \<and> lease_set k (snd (getConcurrency memory now k s))
       = (if isExpired (concurrency_key k) now s then [] else live now (lease_set k s))
   \<and> set (lease_set k (snd (getConcurrency memory now k s))) \<subseteq> set (live now (lease_set k s))
   \<and> fst (decrConcurrency memory now k requestId s)
       = Inr (length (lease_set k (snd (decrConcurrency memory now k requestId s))))
   \<and> set (lease_set k (snd (decrConcurrency memory now k requestId s))) \<subseteq> set (live now (lease_set k s))
   \<and> (fst (refreshConcurrencyLease memory cfg now k requestId la s) = Inr 1 \<or>
        fst (refreshConcurrencyLease memory cfg now k requestId la s) = Inr 0)
   \<and> (fst (refreshConcurrencyLease memory cfg now k requestId la s) = Inr 1 \<longrightarrow>
        (\<exists>sc. (requestId, sc) \<in> set (lease_set k s) \<and> now < sc))
   \<and> (requestId \<noteq> [] \<longrightarrow>
        (\<forall>m sc. (m, sc) \<in> set (lease_set k (snd (refreshConcurrencyLease memory cfg now k requestId la s)))
                 \<and> m \<noteq> requestId \<longrightarrow> (m, sc) \<in> set (lease_set k s) \<and> now < sc))
   \<and> (requestId = [] \<longrightarrow> refreshConcurrencyLease memory cfg now k requestId la s = (Inr 0, s))"
proof -
  have g: "fst (getConcurrency memory now k s) = Inr (length (lease_set k (snd (getConcurrency memory now k s))))
           \<and> lease_set k (snd (getConcurrency memory now k s))
               = (if isExpired (concurrency_key k) now s then [] else live now (lease_set k s))
           \<and> set (lease_set k (snd (getConcurrency memory now k s))) \<subseteq> set (live now (lease_set k s))"
    by (simp add: getConcurrency_memory)
  have d: "fst (decrConcurrency memory now k requestId s)
             = Inr (length (lease_set k (snd (decrConcurrency memory now k requestId s))))
           \<and> set (lease_set k (snd (decrConcurrency memory now k requestId s))) \<subseteq> set (live now (lease_set k s))"
    using released_live [of requestId now "lease_set k s"]
    by (simp add: decrConcurrency_memory)
  have r0: "requestId = [] \<Longrightarrow> refreshConcurrencyLease memory cfg now k requestId la s = (Inr 0, s)"
    by (simp add: refreshConcurrencyLease_def returns_def)
  have r1: "fst (refreshConcurrencyLease memory cfg now k requestId la s) = Inr 1 \<or>
            fst (refreshConcurrencyLease memory cfg now k requestId la s) = Inr 0"
    using r0 by (cases "requestId = []") (simp_all add: refreshConcurrencyLease_memory)
  have r2: "\<exists>sc. (requestId, sc) \<in> set (lease_set k s) \<and> now < sc"
    if "fst (refreshConcurrencyLease memory cfg now k requestId la s) = Inr 1"
  proof -
    have ne: "requestId \<noteq> []" using that r0 by auto
    from that have "map_of (live now (lease_set k s)) requestId \<noteq> None"
      by (simp add: refreshConcurrencyLease_memory [OF ne] split: if_splits)
    then obtain sc where "map_of (live now (lease_set k s)) requestId = Some sc" by auto
    then show ?thesis using map_of_live_some by blast
  qed
  have r3: "(m, sc) \<in> set (lease_set k s) \<and> now < sc"
    if ne: "requestId \<noteq> []"
      and mem: "(m, sc) \<in> set (lease_set k (snd (refreshConcurrencyLease memory cfg now k requestId la s)))"
      and other: "m \<noteq> requestId" for m sc
  proof (cases "map_of (live now (lease_set k s)) requestId \<noteq> None")
    case True
    then have "(m, sc) \<in> set (AList.update requestId (now + effective_lease cfg la * 1000)
                                 (live now (lease_set k s)))"
      using mem by (simp add: refreshConcurrencyLease_memory [OF ne])
    then have "(m, sc) \<in> set (live now (lease_set k s))"
      using update_set [of requestId _ "live now (lease_set k s)"] other by auto
    then show ?thesis by (simp add: live_member)
  next
    case False
    then have "(m, sc) \<in> set (live now (lease_set k s))"
      using mem by (simp add: refreshConcurrencyLease_memory [OF ne])
    then show ?thesis by (simp add: live_member)
  qed
  from g d r0 r1 r2 r3 show ?thesis by blast
qed

theorem expired_leases_never_counted_on_two_leases:
  "lease_set ''key1'' renewable = [(''r0'', 5000), (''r1'', 20000)]
   \<and> ''r1'' \<noteq> []
   \<and> fst (refreshConcurrencyLease memory default_cfg 10000 ''key1'' ''r0'' None renewable) \<noteq> Inr 1
   \<and> (''r0'', 5000) \<notin> set (lease_set ''key1''
         (snd (refreshConcurrencyLease memory default_cfg 10000 ''key1'' ''r1'' None renewable)))
   \<and> (''r0'', 5000) \<notin> set (lease_set ''key1'' (snd (getConcurrency memory 10000 ''key1'' renewable)))
   \<and> (''r0'', 5000) \<notin> set (lease_set ''key1''
         (snd (decrConcurrency memory 10000 ''key1'' ''r9'' renewable)))"
proof -
  have ls: "lease_set ''key1'' renewable = [(''r0'', 5000), (''r1'', 20000)]"
    by (simp add: renewable_def new_client_def lease_set_def concurrency_key_def)
  have lv: "live 10000 (lease_set ''key1'' renewable) = [(''r1'', 20000)]"
    by (simp add: ls live_def)
  note inst = expired_leases_never_counted [of 10000 "''key1''" renewable _ default_cfg None]
  have a: "fst (refreshConcurrencyLease memory default_cfg 10000 ''key1'' ''r0'' None renewable) \<noteq> Inr 1"
    using inst [of "''r0''"] by (auto simp: ls)
  have b: "(''r0'', 5000) \<notin> set (lease_set ''key1''
         (snd (refreshConcurrencyLease memory default_cfg 10000 ''key1'' ''r1'' None renewable)))"
  proof
    assume mem: "(''r0'', 5000) \<in> set (lease_set ''key1''
         (snd (refreshConcurrencyLease memory default_cfg 10000 ''key1'' ''r1'' None renewable)))"
    have "''r1'' \<noteq> []" by simp
    with inst [of "''r1''"]
    have "\<forall>m sc. (m, sc) \<in> set (lease_set ''key1''
              (snd (refreshConcurrencyLease memory default_cfg 10000 ''key1'' ''r1'' None renewable)))
            \<and> m \<noteq> ''r1'' \<longrightarrow> (m, sc) \<in> set (lease_set ''key1'' renewable) \<and> 10000 < sc"
      by blast
    then have "(''r0'', 5000) \<in> set (lease_set ''key1''
              (snd (refreshConcurrencyLease memory default_cfg 10000 ''key1'' ''r1'' None renewable)))
            \<and> ''r0'' \<noteq> ''r1'' \<longrightarrow> (10000::int) < 5000"
      by blast
    with mem show False by simp
  qed
  have c: "(''r0'', 5000) \<notin> set (lease_set ''key1'' (snd (getConcurrency memory 10000 ''key1'' renewable)))
     \<and> (''r0'', 5000) \<notin> set (lease_set ''key1''
           (snd (decrConcurrency memory 10000 ''key1'' ''r9'' renewable)))"
    using inst [of "''r9''"] by (auto simp: lv)
  from ls a b c show ?thesis by simp
qed

text \<open>A renewal with the empty request id at time 200 leaves the member that expired
  at 100 in the set.\<close>

theorem renew_empty_id_keeps_expired_member:
  "fst (refreshConcurrencyLease memory default_cfg 200 ''key2'' [] None stale_pair) = Inr 0
   \<and> (''r1'', 100) \<in> set (lease_set ''key2''
         (snd (refreshConcurrencyLease memory default_cfg 200 ''key2'' [] None stale_pair)))
   \<and> (100::int) \<le> 200"
  by (simp add: refreshConcurrencyLease_def returns_def stale_pair_def new_client_def
        lease_set_def concurrency_key_def)



text \<open>
  Claim C4, as amended. Over any backend, \<^verbatim>\<open>incrConcurrency\<close> and \<^verbatim>\<open>decrConcurrency\<close>
  hand the error of any of their backend calls on unchanged, with the state as the failed
  call left it: for \<^verbatim>\<open>incrConcurrency\<close> the calls are \<^verbatim>\<open>zremrangebyscore\<close>, \<^verbatim>\<open>zadd\<close> and
  \<^verbatim>\<open>zcard\<close>, for \<^verbatim>\<open>decrConcurrency\<close> they are \<^verbatim>\<open>zrem\<close> (made for a non-empty request id),
  \<^verbatim>\<open>zremrangebyscore\<close>, \<^verbatim>\<open>zcard\<close> and, on a count of 0, \<^verbatim>\<open>del\<close>. When every call
  returns they answer the count that \<^verbatim>\<open>zcard\<close> answered, and \<^verbatim>\<open>incrConcurrency\<close> answers
  a count in no other case.
  \<^verbatim>\<open>getConcurrency\<close> and \<^verbatim>\<open>refreshConcurrencyLease\<close> never throw: an error of any of their
  backend calls (\<^verbatim>\<open>zremrangebyscore\<close> and \<^verbatim>\<open>zcard\<close>; \<^verbatim>\<open>zremrangebyscore\<close>, \<^verbatim>\<open>zscore\<close> and
  \<^verbatim>\<open>zadd\<close>) is caught and the answer is 0, and when every call returns they answer the
  count of \<^verbatim>\<open>zcard\<close>, and 1 or 0 as the member was found or not. \<^verbatim>\<open>hincrby\<close> reads a stored
  value that does not parse as 0.
\<close>

theorem lease_error_propagation:
  "(requestId \<noteq> [] \<and>
      call_zremrangebyscore B (concurrency_key k) MinusInf (Score now) s = (Inl e, s1) \<longrightarrow>
        incrConcurrency B cfg now k requestId la s = (Inl e, s1))
   \<and> (requestId \<noteq> [] \<and>
      call_zremrangebyscore B (concurrency_key k) MinusInf (Score now) s = (Inr n0, u1) \<and>
      call_zadd B (concurrency_key k) [(now + effective_lease cfg la * 1000, requestId)] u1
        = (Inl e, s1) \<longrightarrow>
        incrConcurrency B cfg now k requestId la s = (Inl e, s1))
   \<and> (requestId \<noteq> [] \<and>
      call_zremrangebyscore B (concurrency_key k) MinusInf (Score now) s = (Inr n0, u1) \<and>
      call_zadd B (concurrency_key k) [(now + effective_lease cfg la * 1000, requestId)] u1
        = (Inr v0, u2) \<and>
      call_zcard B (concurrency_key k) now
        (snd (set_key_ttl (concurrency_key k) (key_ttl cfg la) now u2)) = (Inl e, s1) \<longrightarrow>
        incrConcurrency B cfg now k requestId la s = (Inl e, s1))
   \<and> (requestId \<noteq> [] \<and>
      call_zremrangebyscore B (concurrency_key k) MinusInf (Score now) s = (Inr n0, u1) \<and>
      call_zadd B (concurrency_key k) [(now + effective_lease cfg la * 1000, requestId)] u1
        = (Inr v0, u2) \<and>
      call_zcard B (concurrency_key k) now
        (snd (set_key_ttl (concurrency_key k) (key_ttl cfg la) now u2)) = (Inr c, s1) \<longrightarrow>
        incrConcurrency B cfg now k requestId la s = (Inr c, s1))
   \<and> (requestId \<noteq> [] \<and> fst (incrConcurrency B cfg now k requestId la s) = Inr c \<longrightarrow>
        (\<exists>n t1 v t2 t3.
           call_zremrangebyscore B (concurrency_key k) MinusInf (Score now) s = (Inr n, t1)
           \<and> call_zadd B (concurrency_key k) [(now + effective_lease cfg la * 1000, requestId)] t1
               = (Inr v, t2)
           \<and> call_zcard B (concurrency_key k) now
                (snd (set_key_ttl (concurrency_key k) (key_ttl cfg la) now t2)) = (Inr c, t3)))
   \<and> (requestId = [] \<and>
      call_zremrangebyscore B (concurrency_key k) MinusInf (Score now) s = (Inl e, s1) \<longrightarrow>
        decrConcurrency B now k requestId s = (Inl e, s1))
   \<and> (requestId \<noteq> [] \<and> call_zrem B (concurrency_key k) [requestId] s = (Inl e, s1) \<longrightarrow>
        decrConcurrency B now k requestId s = (Inl e, s1))
   \<and> (requestId \<noteq> [] \<and> call_zrem B (concurrency_key k) [requestId] s = (Inr n0, u1) \<and>
      call_zremrangebyscore B (concurrency_key k) MinusInf (Score now) u1 = (Inl e, s1) \<longrightarrow>
        decrConcurrency B now k requestId s = (Inl e, s1))
   \<and> ((if requestId \<noteq> [] then call_zrem B (concurrency_key k) [requestId] else returns 0) s
        = (Inr n0, u1) \<and>
      call_zremrangebyscore B (concurrency_key k) MinusInf (Score now) u1 = (Inr n1, u2) \<and>
      call_zcard B (concurrency_key k) now u2 = (Inl e, s1) \<longrightarrow>
        decrConcurrency B now k requestId s = (Inl e, s1))
   \<and> ((if requestId \<noteq> [] then call_zrem B (concurrency_key k) [requestId] else returns 0) s
        = (Inr n0, u1) \<and>
      call_zremrangebyscore B (concurrency_key k) MinusInf (Score now) u1 = (Inr n1, u2) \<and>
      call_zcard B (concurrency_key k) now u2 = (Inr 0, u3) \<and>
      call_del B [concurrency_key k] u3 = (Inl e, s1) \<longrightarrow>
        decrConcurrency B now k requestId s = (Inl e, s1))
   \<and> ((if requestId \<noteq> [] then call_zrem B (concurrency_key k) [requestId] else returns 0) s
        = (Inr n0, u1) \<and>
      call_zremrangebyscore B (concurrency_key k) MinusInf (Score now) u1 = (Inr n1, u2) \<and>
      call_zcard B (concurrency_key k) now u2 = (Inr 0, u3) \<and>
      call_del B [concurrency_key k] u3 = (Inr n2, s1) \<longrightarrow>
        decrConcurrency B now k requestId s = (Inr 0, s1))
   \<and> ((if requestId \<noteq> [] then call_zrem B (concurrency_key k) [requestId] else returns 0) s
        = (Inr n0, u1) \<and>
      call_zremrangebyscore B (concurrency_key k) MinusInf (Score now) u1 = (Inr n1, u2) \<and>
      call_zcard B (concurrency_key k) now u2 = (Inr c, s1) \<and> 0 < c \<longrightarrow>
        decrConcurrency B now k requestId s = (Inr c, s1))
   \<and> (\<exists>c'. fst (getConcurrency B now k s) = Inr c')
   \<and> (call_zremrangebyscore B (concurrency_key k) MinusInf (Score now) s = (Inl e, s1) \<longrightarrow>
        getConcurrency B now k s = (Inr 0, s1))
   \<and> (call_zremrangebyscore B (concurrency_key k) MinusInf (Score now) s = (Inr n0, u1) \<and>
      call_zcard B (concurrency_key k) now u1 = (Inl e, s1) \<longrightarrow>
        getConcurrency B now k s = (Inr 0, s1))
   \<and> (call_zremrangebyscore B (concurrency_key k) MinusInf (Score now) s = (Inr n0, u1) \<and>
      call_zcard B (concurrency_key k) now u1 = (Inr c, s1) \<longrightarrow>
        getConcurrency B now k s = (Inr c, s1))
   \<and> (\<exists>c'. fst (refreshConcurrencyLease B cfg now k requestId la s) = Inr c')
   \<and> (requestId \<noteq> [] \<and>
      call_zremrangebyscore B (concurrency_key k) MinusInf (Score now) s = (Inl e, s1) \<longrightarrow>
        refreshConcurrencyLease B cfg now k requestId la s = (Inr 0, s1))
   \<and> (requestId \<noteq> [] \<and>
      call_zremrangebyscore B (concurrency_key k) MinusInf (Score now) s = (Inr n0, u1) \<and>
      call_zscore B (concurrency_key k) requestId u1 = (Inl e, s1) \<longrightarrow>
        refreshConcurrencyLease B cfg now k requestId la s = (Inr 0, s1))
   \<and> (requestId \<noteq> [] \<and>
      call_zremrangebyscore B (concurrency_key k) MinusInf (Score now) s = (Inr n0, u1) \<and>
      call_zscore B (concurrency_key k) requestId u1 = (Inr None, s1) \<longrightarrow>
        refreshConcurrencyLease B cfg now k requestId la s = (Inr 0, s1))
   \<and> (requestId \<noteq> [] \<and>
      call_zremrangebyscore B (concurrency_key k) MinusInf (Score now) s = (Inr n0, u1) \<and>
      call_zscore B (concurrency_key k) requestId u1 = (Inr (Some sc), u2) \<and>
      call_zadd B (concurrency_key k) [(now + effective_lease cfg la * 1000, requestId)] u2
        = (Inl e, s1) \<longrightarrow>
        refreshConcurrencyLease B cfg now k requestId la s = (Inr 0, s1))
   \<and> (requestId \<noteq> [] \<and>
      call_zremrangebyscore B (concurrency_key k) MinusInf (Score now) s = (Inr n0, u1) \<and>
      call_zscore B (concurrency_key k) requestId u1 = (Inr (Some sc), u2) \<and>
      call_zadd B (concurrency_key k) [(now + effective_lease cfg la * 1000, requestId)] u2
        = (Inr v0, u3) \<longrightarrow>
        refreshConcurrencyLease B cfg now k requestId la s
          = (Inr 1, snd (set_key_ttl (concurrency_key k) (key_ttl cfg la) now u3)))
   \<and> (hashes s key = Some hash \<and> map_of hash field = Some v' \<and> js_parseInt v' = None \<longrightarrow>
        fst (hincrby key field increment s) = increment)"
proof -
  let ?key = "concurrency_key k"
  let ?sweep = "call_zremrangebyscore B ?key MinusInf (Score now)"
  let ?add = "call_zadd B ?key [(now + effective_lease cfg la * 1000, requestId)]"
  let ?touch = "\<lambda>t. snd (set_key_ttl ?key (key_ttl cfg la) now t)"
  let ?card = "\<lambda>t. call_zcard B ?key now (?touch t)"
  let ?rem = "if requestId \<noteq> [] then call_zrem B ?key [requestId] else returns 0"
  have incr: "incrConcurrency B cfg now k requestId la s =
                (case ?sweep s of
                   (Inl e, t) \<Rightarrow> (Inl e, t)
                 | (Inr n, t1) \<Rightarrow>
                     (case ?add t1 of
                        (Inl e, t) \<Rightarrow> (Inl e, t)
                      | (Inr v, t2) \<Rightarrow>
                          (case ?card t2 of
                             (Inl e, t) \<Rightarrow> (Inl e, t)
                           | (Inr c, t3) \<Rightarrow> (Inr c, t3))))"
    if "requestId \<noteq> []"
    using that
    by (simp add: incrConcurrency_def try_catch_rethrow Let_def await_def returns_def
          effective_lease_def key_ttl_def split_beta set_key_ttl_returns
          split: sum.splits)
  have decr: "decrConcurrency B now k requestId s =
                (case ?rem s of
                   (Inl e, t) \<Rightarrow> (Inl e, t)
                 | (Inr n, t1) \<Rightarrow>
                     (case ?sweep t1 of
                        (Inl e, t) \<Rightarrow> (Inl e, t)
                      | (Inr m, t2) \<Rightarrow>
                          (case call_zcard B ?key now t2 of
                             (Inl e, t) \<Rightarrow> (Inl e, t)
                           | (Inr c, t3) \<Rightarrow>
                               if c \<le> 0
                               then (case call_del B [?key] t3 of
                                       (Inl e, t) \<Rightarrow> (Inl e, t)
                                     | (Inr d, t4) \<Rightarrow> (Inr 0, t4))
                               else (Inr c, t3))))"
    by (simp add: decrConcurrency_def try_catch_rethrow Let_def await_def returns_def
          split_beta split: sum.splits)
  have getc: "getConcurrency B now k s =
                (case ?sweep s of
                   (Inl e, t) \<Rightarrow> (Inr 0, t)
                 | (Inr n, t1) \<Rightarrow>
                     (case call_zcard B ?key now t1 of
                        (Inl e, t) \<Rightarrow> (Inr 0, t)
                      | (Inr c, t2) \<Rightarrow> (Inr c, t2)))"
    by (simp add: getConcurrency_def try_catch_def Let_def await_def returns_def
          split_beta split: sum.splits)
  have renew: "refreshConcurrencyLease B cfg now k requestId la s =
                (case ?sweep s of
                   (Inl e, t) \<Rightarrow> (Inr 0, t)
                 | (Inr n, t1) \<Rightarrow>
                     (case call_zscore B ?key requestId t1 of
                        (Inl e, t) \<Rightarrow> (Inr 0, t)
                      | (Inr None, t2) \<Rightarrow> (Inr 0, t2)
                      | (Inr (Some sc), t2) \<Rightarrow>
                          (case ?add t2 of
                             (Inl e, t) \<Rightarrow> (Inr 0, t)
                           | (Inr v, t3) \<Rightarrow> (Inr 1, ?touch t3))))"
    if "requestId \<noteq> []"
    using that
    by (simp add: refreshConcurrencyLease_def try_catch_def Let_def await_def returns_def
          effective_lease_def key_ttl_def split_beta set_key_ttl_returns
          split: sum.splits option.splits)
  have i1: "requestId \<noteq> [] \<and> ?sweep s = (Inl e, s1) \<longrightarrow>
              incrConcurrency B cfg now k requestId la s = (Inl e, s1)"
    by (simp add: incr)
  have i2: "requestId \<noteq> [] \<and> ?sweep s = (Inr n0, u1) \<and> ?add u1 = (Inl e, s1) \<longrightarrow>
              incrConcurrency B cfg now k requestId la s = (Inl e, s1)"
    by (simp add: incr)
  have i3: "requestId \<noteq> [] \<and> ?sweep s = (Inr n0, u1) \<and> ?add u1 = (Inr v0, u2)
              \<and> ?card u2 = (Inl e, s1) \<longrightarrow>
              incrConcurrency B cfg now k requestId la s = (Inl e, s1)"
    by (simp add: incr)
  have i4: "requestId \<noteq> [] \<and> ?sweep s = (Inr n0, u1) \<and> ?add u1 = (Inr v0, u2)
              \<and> ?card u2 = (Inr c, s1) \<longrightarrow>
              incrConcurrency B cfg now k requestId la s = (Inr c, s1)"
    by (simp add: incr)
  have i5: "requestId \<noteq> [] \<and> fst (incrConcurrency B cfg now k requestId la s) = Inr c \<longrightarrow>
        (\<exists>n t1 v t2 t3. ?sweep s = (Inr n, t1) \<and> ?add t1 = (Inr v, t2) \<and> ?card t2 = (Inr c, t3))"
    by (auto simp: incr split: prod.splits sum.splits)
  have d1: "requestId = [] \<and> ?sweep s = (Inl e, s1) \<longrightarrow>
              decrConcurrency B now k requestId s = (Inl e, s1)"
    unfolding decr by (simp add: returns_def)
  have d2: "requestId \<noteq> [] \<and> call_zrem B ?key [requestId] s = (Inl e, s1) \<longrightarrow>
              decrConcurrency B now k requestId s = (Inl e, s1)"
    unfolding decr by simp
  have d3: "requestId \<noteq> [] \<and> call_zrem B ?key [requestId] s = (Inr n0, u1) \<and>
              ?sweep u1 = (Inl e, s1) \<longrightarrow>
              decrConcurrency B now k requestId s = (Inl e, s1)"
    unfolding decr by simp
  have d4: "?rem s = (Inr n0, u1) \<and> ?sweep u1 = (Inr n1, u2) \<and>
            call_zcard B ?key now u2 = (Inl e, s1) \<longrightarrow>
              decrConcurrency B now k requestId s = (Inl e, s1)"
    unfolding decr by simp
  have d5: "?rem s = (Inr n0, u1) \<and> ?sweep u1 = (Inr n1, u2) \<and>
            call_zcard B ?key now u2 = (Inr 0, u3) \<and> call_del B [?key] u3 = (Inl e, s1) \<longrightarrow>
              decrConcurrency B now k requestId s = (Inl e, s1)"
    unfolding decr by simp
  have d6: "?rem s = (Inr n0, u1) \<and> ?sweep u1 = (Inr n1, u2) \<and>
            call_zcard B ?key now u2 = (Inr 0, u3) \<and> call_del B [?key] u3 = (Inr n2, s1) \<longrightarrow>
              decrConcurrency B now k requestId s = (Inr 0, s1)"
    unfolding decr by simp
  have d7: "?rem s = (Inr n0, u1) \<and> ?sweep u1 = (Inr n1, u2) \<and>
            call_zcard B ?key now u2 = (Inr c, s1) \<and> 0 < c \<longrightarrow>
              decrConcurrency B now k requestId s = (Inr c, s1)"
    unfolding decr by simp
  have g1: "\<exists>c'. fst (getConcurrency B now k s) = Inr c'"
    by (auto simp: getc split: prod.splits sum.splits)
  have g2: "?sweep s = (Inl e, s1) \<longrightarrow> getConcurrency B now k s = (Inr 0, s1)"
    by (simp add: getc)
  have g3: "?sweep s = (Inr n0, u1) \<and> call_zcard B ?key now u1 = (Inl e, s1) \<longrightarrow>
              getConcurrency B now k s = (Inr 0, s1)"
    by (simp add: getc)
  have g4: "?sweep s = (Inr n0, u1) \<and> call_zcard B ?key now u1 = (Inr c, s1) \<longrightarrow>
              getConcurrency B now k s = (Inr c, s1)"
    by (simp add: getc)
  have r1: "\<exists>c'. fst (refreshConcurrencyLease B cfg now k requestId la s) = Inr c'"
    by (auto simp: refreshConcurrencyLease_def try_catch_def await_def returns_def Let_def
          set_key_ttl_def split: prod.splits sum.splits)
  have r2: "requestId \<noteq> [] \<and> ?sweep s = (Inl e, s1) \<longrightarrow>
              refreshConcurrencyLease B cfg now k requestId la s = (Inr 0, s1)"
    by (simp add: renew)
  have r3: "requestId \<noteq> [] \<and> ?sweep s = (Inr n0, u1) \<and>
            call_zscore B ?key requestId u1 = (Inl e, s1) \<longrightarrow>
              refreshConcurrencyLease B cfg now k requestId la s = (Inr 0, s1)"
    by (simp add: renew)
  have r4: "requestId \<noteq> [] \<and> ?sweep s = (Inr n0, u1) \<and>
            call_zscore B ?key requestId u1 = (Inr None, s1) \<longrightarrow>
              refreshConcurrencyLease B cfg now k requestId la s = (Inr 0, s1)"
    by (simp add: renew)
  have r5: "requestId \<noteq> [] \<and> ?sweep s = (Inr n0, u1) \<and>
            call_zscore B ?key requestId u1 = (Inr (Some sc), u2) \<and> ?add u2 = (Inl e, s1) \<longrightarrow>
              refreshConcurrencyLease B cfg now k requestId la s = (Inr 0, s1)"
    by (simp add: renew)
  have r6: "requestId \<noteq> [] \<and> ?sweep s = (Inr n0, u1) \<and>
            call_zscore B ?key requestId u1 = (Inr (Some sc), u2) \<and> ?add u2 = (Inr v0, u3) \<longrightarrow>
              refreshConcurrencyLease B cfg now k requestId la s = (Inr 1, ?touch u3)"
    by (simp add: renew)
  have h: "hashes s key = Some hash \<and> map_of hash field = Some v' \<and> js_parseInt v' = None \<longrightarrow>
             fst (hincrby key field increment s) = increment"
    by (simp add: hincrby_def Let_def)
  from i1 i2 i3 i4 i5 d1 d2 d3 d4 d5 d6 d7 g1 g2 g3 g4 r1 r2 r3 r4 r5 r6 h
  show ?thesis by (intro conjI)
qed

text \<open>On a backend whose calls all throw, and on one whose \<^verbatim>\<open>zcard\<close> throws after the
  earlier calls have returned.\<close>

theorem lease_errors_on_unreachable_backend:
  "''r1'' \<noteq> []
   \<and> call_zremrangebyscore unavailable (concurrency_key ''key1'') MinusInf (Score 0) new_client
       = (Inl (Error ''ECONNREFUSED''), new_client)
   \<and> call_zrem unavailable (concurrency_key ''key1'') [''r1''] new_client
       = (Inl (Error ''ECONNREFUSED''), new_client)
   \<and> incrConcurrency unavailable default_cfg 0 ''key1'' ''r1'' None new_client
       = (Inl (Error ''ECONNREFUSED''), new_client)
   \<and> decrConcurrency unavailable 0 ''key1'' ''r1'' new_client
       = (Inl (Error ''ECONNREFUSED''), new_client)
   \<and> call_zrem late_failure (concurrency_key ''key1'') [''r1''] new_client = (Inr 0, new_client)
   \<and> call_zremrangebyscore late_failure (concurrency_key ''key1'') MinusInf (Score 0) new_client
       = (Inr 0, new_client)
   \<and> call_zcard late_failure (concurrency_key ''key1'') 0 new_client
       = (Inl (Error ''ETIMEDOUT''), new_client)
   \<and> decrConcurrency late_failure 0 ''key1'' ''r1'' new_client
       = (Inl (Error ''ETIMEDOUT''), new_client)
   \<and> getConcurrency late_failure 0 ''key1'' new_client = (Inr 0, new_client)"
proof -
  have r: "''r1'' \<noteq> []" by simp
  have z: "call_zremrangebyscore unavailable (concurrency_key ''key1'') MinusInf (Score 0) new_client
             = (Inl (Error ''ECONNREFUSED''), new_client)"
    by (simp add: unavailable_def throws_def)
  have m: "call_zrem unavailable (concurrency_key ''key1'') [''r1''] new_client
             = (Inl (Error ''ECONNREFUSED''), new_client)"
    by (simp add: unavailable_def throws_def)
  have m': "call_zrem late_failure (concurrency_key ''key1'') [''r1''] new_client
              = (Inr 0, new_client)"
    by (simp add: late_failure_def memory_def ok_def zrem_def new_client_def)
  have z': "call_zremrangebyscore late_failure (concurrency_key ''key1'') MinusInf (Score 0)
              new_client = (Inr 0, new_client)"
    by (simp add: late_failure_def memory_def ok_def zremrangebyscore_def new_client_def)
  have c': "call_zcard late_failure (concurrency_key ''key1'') 0 new_client
              = (Inl (Error ''ETIMEDOUT''), new_client)"
    by (simp add: late_failure_def throws_def)
  note inst = lease_error_propagation
                [where requestId = "''r1''" and B = unavailable and k = "''key1''" and now = 0
                   and s = new_client and e = "Error ''ECONNREFUSED''" and ?s1.0 = new_client
                   and cfg = default_cfg and la = None]
  from inst r z m
  have a: "incrConcurrency unavailable default_cfg 0 ''key1'' ''r1'' None new_client
          = (Inl (Error ''ECONNREFUSED''), new_client)
        \<and> decrConcurrency unavailable 0 ''key1'' ''r1'' new_client
          = (Inl (Error ''ECONNREFUSED''), new_client)"
    by blast
  note late = lease_error_propagation
                [where requestId = "''r1''" and B = late_failure and k = "''key1''" and now = 0
                   and s = new_client and e = "Error ''ETIMEDOUT''" and ?s1.0 = new_client
                   and ?n0.0 = 0 and ?u1.0 = new_client and ?n1.0 = 0 and ?u2.0 = new_client]
  from late r m' z' c'
  have b: "decrConcurrency late_failure 0 ''key1'' ''r1'' new_client
             = (Inl (Error ''ETIMEDOUT''), new_client)
           \<and> getConcurrency late_failure 0 ''key1'' new_client = (Inr 0, new_client)"
    by simp
  from r z m a m' z' c' b show ?thesis by simp
qed

text \<open>On a backend whose calls all throw, \<^verbatim>\<open>getConcurrency\<close> and
  \<^verbatim>\<open>refreshConcurrencyLease\<close> answer 0 instead of the error.\<close>

theorem getConcurrency_swallows_error:
  "call_zremrangebyscore unavailable (concurrency_key ''key1'') MinusInf (Score 0) new_client
     = (Inl (Error ''ECONNREFUSED''), new_client)
   \<and> getConcurrency unavailable 0 ''key1'' new_client = (Inr 0, new_client)
   \<and> refreshConcurrencyLease unavailable default_cfg 0 ''key1'' ''r1'' None new_client
       = (Inr 0, new_client)"
  by (simp add: getConcurrency_def refreshConcurrencyLease_def unavailable_def
        try_catch_def await_def returns_def throws_def Let_def)

section \<open>Usage and cost counters\<close>

lemma run_hincrby_ttls [simp]: "ttls (run_memory now (Hincrby k f n) s) = ttls s"
  by (simp add: run_memory_def hincrby_def Let_def)

lemma run_hincrby_exists [simp]:
  "key_exists K (run_memory now (Hincrby k f n) s) \<longleftrightarrow> K = k \<or> key_exists K s"
  by (auto simp: run_memory_def hincrby_def Let_def key_exists_def)

lemma run_expire_ttls [simp]:
  "ttls (run_memory now (Expire k sec) s) =
     (if key_exists k s \<and> 0 < sec then (ttls s)(k \<mapsto> now + sec * 1000) else ttls s)"
  by (simp add: run_memory_def expire_def setExpiry_def)

lemma run_expire_exists [simp]:
  "key_exists K (run_memory now (Expire k sec) s) \<longleftrightarrow> key_exists K s"
  by (simp add: run_memory_def expire_def setExpiry_def key_exists_def)

lemma usage_keys_distinct:
  "usage_daily_key k cal \<noteq> usage_monthly_key k cal"
  "usage_daily_key k cal \<noteq> usage_hourly_key k cal"
  "usage_monthly_key k cal \<noteq> usage_hourly_key k cal"
  "usage_daily_key k cal \<noteq> system_minute_key now"
  "usage_monthly_key k cal \<noteq> system_minute_key now"
  "usage_hourly_key k cal \<noteq> system_minute_key now"
  "model_daily_key m cal \<noteq> usage_daily_key k cal"
  "model_daily_key m cal \<noteq> usage_monthly_key k cal"
  "model_daily_key m cal \<noteq> usage_hourly_key k cal"
  "model_daily_key m cal \<noteq> system_minute_key now"
  by (simp_all add: usage_daily_key_def usage_monthly_key_def usage_hourly_key_def
        system_minute_key_def model_daily_key_def)

lemma token_ttls:
  "ttls (fold (run_memory now) (token_commands cfg now cal keyId tokens i out cc cr m e5 e1 lc) s)
     = (let t1 = (ttls s)(usage_daily_key keyId cal \<mapsto> now + 86400 * 32 * 1000,
                          usage_monthly_key keyId cal \<mapsto> now + 86400 * 365 * 1000,
                          usage_hourly_key keyId cal \<mapsto> now + 86400 * 7 * 1000)
        in if 0 < metricsWindow cfg
           then t1(system_minute_key now \<mapsto> now + metricsWindow cfg * 60 * 2 * 1000)
           else t1)"
  by (cases lc) (simp_all add: token_commands_def Let_def)

lemma resume_fields:
  "ttls (snd (incrbyfloat_resume fadd k a cur now s)) = ttls s"
  "store (snd (incrbyfloat_resume fadd k a cur now s)) = (store s)(k \<mapsto> fadd cur a)"
  by (simp_all add: incrbyfloat_resume_def set_op_def Let_def)

lemma cost_keys_distinct:
  "cost_daily_key k cal \<noteq> cost_monthly_key k cal"
  "cost_daily_key k cal \<noteq> cost_hourly_key k cal"
  "cost_daily_key k cal \<noteq> cost_total_key k"
  "cost_monthly_key k cal \<noteq> cost_hourly_key k cal"
  "cost_monthly_key k cal \<noteq> cost_total_key k"
  "cost_hourly_key k cal \<noteq> cost_total_key k"
  by (simp_all add: cost_daily_key_def cost_monthly_key_def cost_hourly_key_def cost_total_key_def)

lemmas cost_steps = incrementDailyCost_def Let_def split_beta get_other expire_fields
  resume_fields get_state_live

lemma cost_ttls:
  "store s (cost_daily_key k cal) \<noteq> None \<and> \<not> isExpired (cost_daily_key k cal) now s \<longrightarrow>
     ttls (incrementDailyCost fadd now cal k amount s) (cost_daily_key k cal)
       = Some (now + 86400 * 30 * 1000)"
  "store s (cost_monthly_key k cal) \<noteq> None \<and> \<not> isExpired (cost_monthly_key k cal) now s \<longrightarrow>
     ttls (incrementDailyCost fadd now cal k amount s) (cost_monthly_key k cal)
       = Some (now + 86400 * 90 * 1000)"
  "store s (cost_hourly_key k cal) \<noteq> None \<and> \<not> isExpired (cost_hourly_key k cal) now s \<longrightarrow>
     ttls (incrementDailyCost fadd now cal k amount s) (cost_hourly_key k cal)
       = Some (now + 86400 * 7 * 1000)"
  "ttls s (cost_total_key k) = None \<longrightarrow>
     ttls (incrementDailyCost fadd now cal k amount s) (cost_total_key k) = None"
  using cost_keys_distinct [of k cal] cost_keys_distinct [of k cal, symmetric]
  by (simp_all add: cost_steps)

lemma cost_partition:
  "store (incrementDailyCost fadd now cal k amount s) (cost_daily_key k cal)
     = Some (fadd (fst (get (cost_daily_key k cal) now s)) amount)"
  "store (incrementDailyCost fadd now cal k amount s) (cost_monthly_key k cal)
     = Some (fadd (fst (get (cost_monthly_key k cal) now s)) amount)"
  "store (incrementDailyCost fadd now cal k amount s) (cost_hourly_key k cal)
     = Some (fadd (fst (get (cost_hourly_key k cal) now s)) amount)"
  "store (incrementDailyCost fadd now cal k amount s) (cost_total_key k)
     = Some (fadd (fst (get (cost_total_key k) now s)) amount)"
  using cost_keys_distinct [of k cal] cost_keys_distinct [of k cal, symmetric]
  by (simp_all add: cost_steps)

text \<open>A cost bucket that does not exist when the call is made is created by it
  without an expiry: the \<^verbatim>\<open>expire\<close> call finds no key yet.\<close>

lemma cost_first_write_has_no_ttl:
  "ttls (incrementDailyCost whole_fadd 1000 cost_cal ''k1'' 1 new_client)
        ''usage:cost:daily:k1:2026-11-03'' = None
   \<and> store (incrementDailyCost whole_fadd 1000 cost_cal ''k1'' 1 new_client)
        ''usage:cost:daily:k1:2026-11-03'' \<noteq> None"
proof -
  have k: "cost_daily_key ''k1'' cost_cal = ''usage:cost:daily:k1:2026-11-03''"
    by (simp add: cost_daily_key_def cost_cal_def)
  have fresh: "\<And>key. snd (get key 1000 new_client) = new_client"
    by (simp add: get_def isExpired_def new_client_def)
  have absent: "\<And>key sec. snd (expire key sec 1000 new_client) = new_client"
    by (simp add: expire_def key_exists_def new_client_def)
  have "ttls (incrementDailyCost whole_fadd 1000 cost_cal ''k1'' 1 new_client)
          (cost_daily_key ''k1'' cost_cal) = None"
    by (simp add: incrementDailyCost_def Let_def split_beta fresh absent resume_fields)
       (simp add: new_client_def)
  moreover have "store (incrementDailyCost whole_fadd 1000 cost_cal ''k1'' 1 new_client)
          (cost_daily_key ''k1'' cost_cal) \<noteq> None"
    by (simp add: cost_partition)
  ultimately show ?thesis by (simp add: k)
qed

text \<open>
  Claim C3, as amended. After \<^verbatim>\<open>incrementTokenUsage\<close> the key's hourly bucket expires in
  7 days, its daily bucket in 32 days, its monthly bucket in 365 days, and the system
  bucket of the minute in twice the metrics window when that is positive; the per-model
  daily bucket that the same call writes keeps whatever expiry it had. \<^verbatim>\<open>incrementDailyCost\<close>
  adds the amount to a daily, a monthly, an hourly and a total counter of the key. A cost
  bucket that is held and has not expired when the call is made gets its own expiry: the
  daily one 30 days, the monthly one 90 days, the hourly one 7 days; the total gets none.
\<close>

theorem meter_bucket_ttls:
  "ttls (snd (incrementTokenUsage memory cfg now cal keyId tokens i out cc cr m e5 e1 lc s))
        (usage_hourly_key keyId cal) = Some (now + 7 * 86400 * 1000)
   \<and> ttls (snd (incrementTokenUsage memory cfg now cal keyId tokens i out cc cr m e5 e1 lc s))
        (usage_daily_key keyId cal) = Some (now + 32 * 86400 * 1000)
   \<and> ttls (snd (incrementTokenUsage memory cfg now cal keyId tokens i out cc cr m e5 e1 lc s))
        (usage_monthly_key keyId cal) = Some (now + 365 * 86400 * 1000)
   \<and> (0 < metricsWindow cfg \<longrightarrow>
        ttls (snd (incrementTokenUsage memory cfg now cal keyId tokens i out cc cr m e5 e1 lc s))
          (system_minute_key now) = Some (now + 2 * (metricsWindow cfg * 60) * 1000))
   \<and> ttls (snd (incrementTokenUsage memory cfg now cal keyId tokens i out cc cr m e5 e1 lc s))
        (model_daily_key m cal) = ttls s (model_daily_key m cal)
   \<and> store (incrementDailyCost fadd now cal keyId amount c) (cost_daily_key keyId cal)
       = Some (fadd (fst (get (cost_daily_key keyId cal) now c)) amount)
   \<and> store (incrementDailyCost fadd now cal keyId amount c) (cost_monthly_key keyId cal)
       = Some (fadd (fst (get (cost_monthly_key keyId cal) now c)) amount)
   \<and> store (incrementDailyCost fadd now cal keyId amount c) (cost_hourly_key keyId cal)
       = Some (fadd (fst (get (cost_hourly_key keyId cal) now c)) amount)
   \<and> store (incrementDailyCost fadd now cal keyId amount c) (cost_total_key keyId)
       = Some (fadd (fst (get (cost_total_key keyId) now c)) amount)
   \<and> (store c (cost_daily_key keyId cal) \<noteq> None \<and> \<not> isExpired (cost_daily_key keyId cal) now c
        \<longrightarrow> ttls (incrementDailyCost fadd now cal keyId amount c) (cost_daily_key keyId cal)
              = Some (now + 30 * 86400 * 1000))
   \<and> (store c (cost_monthly_key keyId cal) \<noteq> None \<and> \<not> isExpired (cost_monthly_key keyId cal) now c
        \<longrightarrow> ttls (incrementDailyCost fadd now cal keyId amount c) (cost_monthly_key keyId cal)
              = Some (now + 90 * 86400 * 1000))
   \<and> (store c (cost_hourly_key keyId cal) \<noteq> None \<and> \<not> isExpired (cost_hourly_key keyId cal) now c
        \<longrightarrow> ttls (incrementDailyCost fadd now cal keyId amount c) (cost_hourly_key keyId cal)
              = Some (now + 7 * 86400 * 1000))
   \<and> (ttls c (cost_total_key keyId) = None
        \<longrightarrow> ttls (incrementDailyCost fadd now cal keyId amount c) (cost_total_key keyId) = None)"
proof -
  have tok:
    "ttls (snd (incrementTokenUsage memory cfg now cal keyId tokens i out cc cr m e5 e1 lc s))
          (usage_hourly_key keyId cal) = Some (now + 7 * 86400 * 1000)
     \<and> ttls (snd (incrementTokenUsage memory cfg now cal keyId tokens i out cc cr m e5 e1 lc s))
          (usage_daily_key keyId cal) = Some (now + 32 * 86400 * 1000)
     \<and> ttls (snd (incrementTokenUsage memory cfg now cal keyId tokens i out cc cr m e5 e1 lc s))
          (usage_monthly_key keyId cal) = Some (now + 365 * 86400 * 1000)
     \<and> (0 < metricsWindow cfg \<longrightarrow>
          ttls (snd (incrementTokenUsage memory cfg now cal keyId tokens i out cc cr m e5 e1 lc s))
            (system_minute_key now) = Some (now + 2 * (metricsWindow cfg * 60) * 1000))
     \<and> ttls (snd (incrementTokenUsage memory cfg now cal keyId tokens i out cc cr m e5 e1 lc s))
          (model_daily_key m cal) = ttls s (model_daily_key m cal)"
    by (simp add: incrementTokenUsage_memory token_ttls Let_def
          usage_keys_distinct usage_keys_distinct [symmetric])
  have cost1:
    "store (incrementDailyCost fadd now cal keyId amount c) (cost_daily_key keyId cal)
       = Some (fadd (fst (get (cost_daily_key keyId cal) now c)) amount)
     \<and> store (incrementDailyCost fadd now cal keyId amount c) (cost_monthly_key keyId cal)
       = Some (fadd (fst (get (cost_monthly_key keyId cal) now c)) amount)
     \<and> store (incrementDailyCost fadd now cal keyId amount c) (cost_hourly_key keyId cal)
       = Some (fadd (fst (get (cost_hourly_key keyId cal) now c)) amount)
     \<and> store (incrementDailyCost fadd now cal keyId amount c) (cost_total_key keyId)
       = Some (fadd (fst (get (cost_total_key keyId) now c)) amount)"
    by (simp only: cost_partition simp_thms)
  have cost2:
    "(store c (cost_daily_key keyId cal) \<noteq> None \<and> \<not> isExpired (cost_daily_key keyId cal) now c
        \<longrightarrow> ttls (incrementDailyCost fadd now cal keyId amount c) (cost_daily_key keyId cal)
              = Some (now + 30 * 86400 * 1000))
     \<and> (store c (cost_monthly_key keyId cal) \<noteq> None \<and> \<not> isExpired (cost_monthly_key keyId cal) now c
        \<longrightarrow> ttls (incrementDailyCost fadd now cal keyId amount c) (cost_monthly_key keyId cal)
              = Some (now + 90 * 86400 * 1000))
     \<and> (store c (cost_hourly_key keyId cal) \<noteq> None \<and> \<not> isExpired (cost_hourly_key keyId cal) now c
        \<longrightarrow> ttls (incrementDailyCost fadd now cal keyId amount c) (cost_hourly_key keyId cal)
              = Some (now + 7 * 86400 * 1000))
     \<and> (ttls c (cost_total_key keyId) = None
        \<longrightarrow> ttls (incrementDailyCost fadd now cal keyId amount c) (cost_total_key keyId) = None)"
    using cost_ttls(1) [of c keyId cal now fadd amount]
      cost_ttls(2) [of c keyId cal now fadd amount]
      cost_ttls(3) [of c keyId cal now fadd amount]
      cost_ttls(4) [of c keyId fadd now cal amount]
    by simp
  from tok cost1 cost2 show ?thesis by blast
qed

theorem meter_bucket_ttls_first_request:
  "(0::int) < metricsWindow default_cfg
   \<and> ttls (snd (incrementTokenUsage memory default_cfg 1000 cost_cal ''k1'' 15 10 5 0 0
                  ''claude-3'' 0 0 False new_client))
        ''usage:hourly:k1:2026-11-03:14'' = Some 604801000
   \<and> ttls (snd (incrementTokenUsage memory default_cfg 1000 cost_cal ''k1'' 15 10 5 0 0
                  ''claude-3'' 0 0 False new_client))
        ''usage:daily:k1:2026-11-03'' = Some 2764801000
   \<and> ttls (snd (incrementTokenUsage memory default_cfg 1000 cost_cal ''k1'' 15 10 5 0 0
                  ''claude-3'' 0 0 False new_client))
        ''usage:monthly:k1:2026-11'' = Some 31536001000
   \<and> ttls (snd (incrementTokenUsage memory default_cfg 1000 cost_cal ''k1'' 15 10 5 0 0
                  ''claude-3'' 0 0 False new_client))
        (system_minute_key 1000) = Some 601000
   \<and> store cost_state ''usage:cost:daily:k1:2026-11-03'' \<noteq> None
   \<and> \<not> isExpired ''usage:cost:daily:k1:2026-11-03'' 1000 cost_state
   \<and> ttls (incrementDailyCost whole_fadd 1000 cost_cal ''k1'' 1 cost_state)
        ''usage:cost:daily:k1:2026-11-03'' = Some 2592001000"
proof -
  have w: "(0::int) < metricsWindow default_cfg"
    by (simp add: default_cfg_def)
  have keys: "usage_hourly_key ''k1'' cost_cal = ''usage:hourly:k1:2026-11-03:14''"
    "usage_daily_key ''k1'' cost_cal = ''usage:daily:k1:2026-11-03''"
    "usage_monthly_key ''k1'' cost_cal = ''usage:monthly:k1:2026-11''"
    "cost_daily_key ''k1'' cost_cal = ''usage:cost:daily:k1:2026-11-03''"
    by (simp_all add: usage_hourly_key_def usage_daily_key_def usage_monthly_key_def
          cost_daily_key_def cost_cal_def)
  have held: "store cost_state ''usage:cost:daily:k1:2026-11-03'' \<noteq> None
              \<and> \<not> isExpired ''usage:cost:daily:k1:2026-11-03'' 1000 cost_state"
    by (simp add: cost_state_def new_client_def isExpired_def)
  have mw: "metricsWindow default_cfg = 5"
    by (simp add: default_cfg_def)
  from meter_bucket_ttls [of default_cfg 1000 cost_cal "''k1''" 15 10 5 0 0 "''claude-3''" 0 0 False
                              new_client whole_fadd 1 cost_state]
  have "ttls (snd (incrementTokenUsage memory default_cfg 1000 cost_cal ''k1'' 15 10 5 0 0
                  ''claude-3'' 0 0 False new_client))
        ''usage:hourly:k1:2026-11-03:14'' = Some 604801000
   \<and> ttls (snd (incrementTokenUsage memory default_cfg 1000 cost_cal ''k1'' 15 10 5 0 0
                  ''claude-3'' 0 0 False new_client))
        ''usage:daily:k1:2026-11-03'' = Some 2764801000
   \<and> ttls (snd (incrementTokenUsage memory default_cfg 1000 cost_cal ''k1'' 15 10 5 0 0
                  ''claude-3'' 0 0 False new_client))
        ''usage:monthly:k1:2026-11'' = Some 31536001000
   \<and> ttls (snd (incrementTokenUsage memory default_cfg 1000 cost_cal ''k1'' 15 10 5 0 0
                  ''claude-3'' 0 0 False new_client))
        (system_minute_key 1000) = Some 601000
   \<and> ttls (incrementDailyCost whole_fadd 1000 cost_cal ''k1'' 1 cost_state)
        ''usage:cost:daily:k1:2026-11-03'' = Some 2592001000"
    unfolding keys mw using held by simp
  with w held show ?thesis by simp
qed

text \<open>The daily cost bucket of a key that holds 5 when 1 is added at time 1000: the
  counter reads 6 and expires 30 days later, not 32.\<close>

theorem cost_daily_ttl_is_30_days:
  "ttls (incrementDailyCost whole_fadd 1000 cost_cal ''k1'' 1 cost_state)
        ''usage:cost:daily:k1:2026-11-03'' = Some (1000 + 30 * 86400 * 1000)
   \<and> store (incrementDailyCost whole_fadd 1000 cost_cal ''k1'' 1 cost_state)
        ''usage:cost:daily:k1:2026-11-03'' = Some ''6''
   \<and> (1000 + 30 * 86400 * 1000 :: int) \<noteq> 1000 + 32 * 86400 * 1000"
proof -
  have k: "cost_daily_key ''k1'' cost_cal = ''usage:cost:daily:k1:2026-11-03''"
    by (simp add: cost_daily_key_def cost_cal_def)
  have h: "store cost_state (cost_daily_key ''k1'' cost_cal) = Some ''5''
           \<and> \<not> isExpired (cost_daily_key ''k1'' cost_cal) 1000 cost_state"
    by (simp add: k cost_state_def new_client_def isExpired_def)
  have g: "fst (get (cost_daily_key ''k1'' cost_cal) 1000 cost_state) = Some ''5''"
    using h by (simp add: get_def)
  have v: "whole_fadd (Some ''5'') 1 = ''6''"
    by (simp add: whole_fadd_def js_parseInt_def is_space_def digit_val_def js_String_def
          string_of_nat.simps char_of_def bit_Suc_0_iff)
  show ?thesis
    using cost_ttls(1) [of cost_state "''k1''" cost_cal 1000 whole_fadd 1] h
      cost_partition(1) [of whole_fadd 1000 cost_cal "''k1''" 1 cost_state]
    by (simp add: k g [unfolded k] v)
qed

end
